theory Spec2Isabelle
  imports Complex_Main
begin

section \<open>Scalars, vectors and matrices\<close>

text \<open>
  The scalar type \<^verbatim>\<open>double\<close> is read as \<^typ>\<open>real\<close>: every operation is exact.  The
  rounding of doubles is modelled apart, in the section on the arithmetic of doubles, and
  used for \<^verbatim>\<open>enforceBallConstraints\<close>, the one method whose result is held to an absolute
  tolerance; overflow and NaN are outside this development.  A \<^verbatim>\<open>FixedVector<double,n>\<close>
  (\<^verbatim>\<open>CDSVec3\<close>, \<^verbatim>\<open>CDSVec4\<close>, \<^verbatim>\<open>CDSVec6\<close>) and an \<^verbatim>\<open>RVec\<close> are lists of reals, indexed
  from 0 as \<^verbatim>\<open>q(0)\<close> .. \<^verbatim>\<open>q(3)\<close> are; a \<^verbatim>\<open>FixedMatrix<double,m,n>\<close> (\<^verbatim>\<open>CDSMat33\<close>,
  \<^verbatim>\<open>CDSMat66\<close>) is the list of its \<^verbatim>\<open>m\<close> rows, in the row-major order in which the
  source writes its array initialisers.
\<close>

type_synonym vec = "real list"
type_synonym mat = "real list list"

text \<open>
  Modelled from the spec: the vector and matrix operators of \<^verbatim>\<open>fixedVector.h\<close>,
  \<^verbatim>\<open>fixedMatrix.h\<close>, \<^verbatim>\<open>cdsVector.h\<close> and \<^verbatim>\<open>matrixTools.h\<close> (headers that are not among
  the sources).  They are the componentwise sum and difference, the scalar multiple,
  the dot product, the Euclidean norm, the matrix-vector and matrix-matrix products
  and the transpose (the library's \<^const>\<open>transpose\<close> of a list of rows).
\<close>

definition vadd :: "vec \<Rightarrow> vec \<Rightarrow> vec" where
  "vadd u v = map2 (+) u v"

definition vsub :: "vec \<Rightarrow> vec \<Rightarrow> vec" where
  "vsub u v = map2 (-) u v"

definition vneg :: "vec \<Rightarrow> vec" where
  "vneg v = map uminus v"

definition smul :: "real \<Rightarrow> vec \<Rightarrow> vec" where
  "smul c v = map ((*) c) v"

definition dot :: "vec \<Rightarrow> vec \<Rightarrow> real" where
  "dot u v = sum_list (map2 (*) u v)"

definition vnorm :: "vec \<Rightarrow> real" where
  "vnorm v = sqrt (dot v v)"

definition zeroVec :: "nat \<Rightarrow> vec" where
  "zeroVec n = replicate n 0"

definition mv :: "mat \<Rightarrow> vec \<Rightarrow> vec" where
  "mv A v = map (\<lambda>r. dot r v) A"

definition mmul :: "mat \<Rightarrow> mat \<Rightarrow> mat" where
  "mmul A B = map (\<lambda>r. map (dot r) (transpose B)) A"

definition madd :: "mat \<Rightarrow> mat \<Rightarrow> mat" where
  "madd A B = map2 vadd A B"

definition msub :: "mat \<Rightarrow> mat \<Rightarrow> mat" where
  "msub A B = map2 vsub A B"

definition mneg :: "mat \<Rightarrow> mat" where
  "mneg A = map vneg A"

definition msmul :: "real \<Rightarrow> mat \<Rightarrow> mat" where
  "msmul c A = map (smul c) A"

definition zeroMat :: "nat \<Rightarrow> nat \<Rightarrow> mat" where
  "zeroMat m n = replicate m (zeroVec n)"

text \<open>\<^verbatim>\<open>M.set(0.); M.setDiag(1.)\<close> on an \<open>n \<times> n\<close> matrix.\<close>

definition identMat :: "nat \<Rightarrow> mat" where
  "identMat n = map (\<lambda>i. map (\<lambda>j. if i = j then 1 else 0) [0..<n]) [0..<n]"

definition ident33 :: mat where
  "ident33 = [[1, 0, 0], [0, 1, 0], [0, 0, 1]]"

definition zero33 :: mat where
  "zero33 = [[0, 0, 0], [0, 0, 0], [0, 0, 0]]"

text \<open>
  Modelled from the spec: \<^verbatim>\<open>crossMat\<close>, \<^verbatim>\<open>orthoTransform\<close> and the block assembly
  functions (spec 4.1: ``cross-product matrices must be implemented as antisymmetric
  3x3 from a Vec3'', ``\<^verbatim>\<open>orthoTransform(M, R)\<close> computes \<open>R \<cdot> M \<cdot> R\<^sup>T\<close>'', ``block-2x2
  assembly'').
\<close>

definition crossMat :: "vec \<Rightarrow> mat" where
  "crossMat v = [[0, - (v ! 2), v ! 1],
                 [v ! 2, 0, - (v ! 0)],
                 [- (v ! 1), v ! 0, 0]]"

definition orthoTransform :: "mat \<Rightarrow> mat \<Rightarrow> mat" where
  "orthoTransform M R = mmul (mmul R M) (transpose R)"

definition blockMat12 :: "mat \<Rightarrow> mat \<Rightarrow> mat" where
  "blockMat12 A B = map2 (@) A B"

definition blockMat21 :: "mat \<Rightarrow> mat \<Rightarrow> mat" where
  "blockMat21 A B = A @ B"

definition blockMat22 :: "mat \<Rightarrow> mat \<Rightarrow> mat \<Rightarrow> mat \<Rightarrow> mat" where
  "blockMat22 A B C D = blockMat21 (blockMat12 A B) (blockMat12 C D)"

definition blockVec :: "vec \<Rightarrow> vec \<Rightarrow> vec" where
  "blockVec u v = u @ v"

text \<open>
  Modelled from the spec: \<^verbatim>\<open>SubMatrix\<close> and \<^verbatim>\<open>SubVector\<close> (\<^verbatim>\<open>subMatrix.h\<close>,
  \<^verbatim>\<open>subVector.h\<close>), views of a block of a matrix or of a slice of a vector given by
  offsets and sizes (spec 5: ``nodes read from and write to a contiguous slice at their
  state offset'').  \<open>subMatrixAdd\<close> is \<^verbatim>\<open>+=\<close> through such a view, \<open>subVecSet\<close> is
  assignment through it.
\<close>

definition subMatrix :: "mat \<Rightarrow> nat \<Rightarrow> nat \<Rightarrow> nat \<Rightarrow> nat \<Rightarrow> mat" where
  "subMatrix M r c h w = map (\<lambda>row. take w (drop c row)) (take h (drop r M))"

definition subMatrixAdd :: "mat \<Rightarrow> nat \<Rightarrow> nat \<Rightarrow> nat \<Rightarrow> nat \<Rightarrow> mat \<Rightarrow> mat" where
  "subMatrixAdd M r c h w X =
     take r M @
     map2 (\<lambda>row x. take c row @ vadd (take w (drop c row)) x @ drop (c + w) row)
          (take h (drop r M)) X @
     drop (r + h) M"

definition subVec :: "vec \<Rightarrow> nat \<Rightarrow> nat \<Rightarrow> vec" where
  "subVec v off n = take n (drop off v)"

definition subVecSet :: "vec \<Rightarrow> nat \<Rightarrow> nat \<Rightarrow> vec \<Rightarrow> vec" where
  "subVecSet v off n u = take off v @ take n u @ drop (off + n) v"

text \<open>
  Modelled from the spec: \<^verbatim>\<open>PhiMatrix\<close> (\<^verbatim>\<open>phiMatrix.h\<close>), the shift operator of an
  offset \<open>r\<close> (spec 4.1): \<open>\<Phi> \<cdot> F\<close> shifts a spatial force from child to parent, the
  moment picking up \<open>r \<times> f\<close>, and \<open>\<Phi>\<^sup>T \<cdot> V\<close> shifts a spatial velocity from parent to
  child, the linear part picking up \<open>\<omega> \<times> r\<close>.  As a 6x6 matrix that is
  \<open>[[I, crossMat r], [0, I]]\<close>.
\<close>

datatype PhiMatrix = PhiMatrix vec

fun phiOffset :: "PhiMatrix \<Rightarrow> vec" where
  "phiOffset (PhiMatrix r) = r"

definition phiMat :: "PhiMatrix \<Rightarrow> mat" where
  "phiMat p = blockMat22 ident33 (crossMat (phiOffset p)) zero33 ident33"

definition phiMul :: "PhiMatrix \<Rightarrow> vec \<Rightarrow> vec" where
  "phiMul p v = mv (phiMat p) v"

definition phiTMul :: "PhiMatrix \<Rightarrow> vec \<Rightarrow> vec" where
  "phiTMul p v = mv (transpose (phiMat p)) v"

section \<open>The arithmetic of doubles\<close>

text \<open>
  A \<^verbatim>\<open>double\<close> is an IEEE 754 binary64 number: a finite one is zero or \<open>\<plusminus> m \<cdot> 2\<^bsup>e\<^esup>\<close>
  with an integer \<open>2\<^bsup>52\<^esup> \<le> m < 2\<^bsup>53\<^esup>\<close>, and an operation returns the double nearest to
  the exact result, a tie going to the even \<open>m\<close>.  \<open>rne\<close> rounds a real to the nearest
  integer, ties to even.  \<open>round64\<close> rounds a real \<open>x\<close> to 53 significant bits: for
  \<open>2\<^bsup>e\<^esup> \<le> |x| < 2\<^bsup>e+1\<^esup>\<close> one unit in the last place is \<open>2\<^bsup>e-52\<^esup>\<close>.  The exponent is
  not bounded: overflow, subnormal numbers and NaN are left out, so that \<open>round64\<close> is the
  rounding of \<^verbatim>\<open>double\<close> on the values between \<open>2\<^bsup>-1022\<^esup>\<close> and \<open>2\<^bsup>1024\<^esup>\<close> in magnitude.
  The operators \<^verbatim>\<open>+\<close>, \<^verbatim>\<open>-\<close>, \<^verbatim>\<open>*\<close>, \<^verbatim>\<open>/\<close> and \<^verbatim>\<open>sqrt\<close> on doubles are \<open>dadd\<close>, \<open>dsub\<close>,
  \<open>dmul\<close>, \<open>ddiv\<close> and \<open>dsqrt\<close>.
\<close>

definition rne :: "real \<Rightarrow> int" where
  "rne x = (let f = \<lfloor>x\<rfloor> in
     if x - of_int f < 1 / 2 then f
     else if 1 / 2 < x - of_int f then f + 1
     else if even f then f else f + 1)"

definition round64 :: "real \<Rightarrow> real" where
  "round64 x = (if x = 0 then 0 else
     (let e = \<lfloor>log 2 \<bar>x\<bar>\<rfloor>; ulp = 2 powr (of_int e - 52)
      in of_int (rne (x / ulp)) * ulp))"

definition dadd :: "real \<Rightarrow> real \<Rightarrow> real" where
  "dadd x y = round64 (x + y)"

definition dsub :: "real \<Rightarrow> real \<Rightarrow> real" where
  "dsub x y = round64 (x - y)"

definition dmul :: "real \<Rightarrow> real \<Rightarrow> real" where
  "dmul x y = round64 (x * y)"

definition ddiv :: "real \<Rightarrow> real \<Rightarrow> real" where
  "ddiv x y = round64 (x / y)"

definition dsqrt :: "real \<Rightarrow> real" where
  "dsqrt x = round64 (sqrt x)"

text \<open>
  Modelled from the spec: \<^verbatim>\<open>dot\<close> and \<^verbatim>\<open>norm\<close> of \<^verbatim>\<open>fixedVector.h\<close> and \<^verbatim>\<open>cdsVector.h\<close>
  (not among the sources) on doubles: the dot product as the loop over the components in
  index order that adds each product to a sum starting at zero, the Euclidean norm as
  the square root of the dot product of the vector with itself.
\<close>

definition dot64 :: "vec \<Rightarrow> vec \<Rightarrow> real" where
  "dot64 u v = fold (\<lambda>(x, y) s. dadd s (dmul x y)) (zip u v) 0"

definition norm64 :: "vec \<Rightarrow> real" where
  "norm64 v = dsqrt (dot64 v v)"

section \<open>The contained ball joint\<close>

text \<open>
  \<^verbatim>\<open>class ContainedBallJoint\<close>: the quaternion \<^verbatim>\<open>q\<close> with its derivatives \<^verbatim>\<open>dq\<close>, \<^verbatim>\<open>ddq\<close>,
  the cached trigonometric values of the Euler angles, and the flag \<^verbatim>\<open>useEuler\<close>.
  The one-letter member \<^verbatim>\<open>q\<close> is the field \<open>ball_q\<close> (and likewise its derivatives).
  A method that changes the object returns the changed object; an output parameter
  (\<^verbatim>\<open>theta\<close>, \<^verbatim>\<open>dTheta\<close>, \<^verbatim>\<open>R_PB\<close>, \<^verbatim>\<open>posv\<close>, \<^verbatim>\<open>velv\<close>) is returned beside it.
\<close>

record ContainedBallJoint =
  ball_q :: vec
  ball_dq :: vec
  ball_ddq :: vec
  cPhi :: real
  sPhi :: real
  cPsi :: real
  sPsi :: real
  cTheta :: real
  sTheta :: real
  useEuler :: bool

datatype Abort = AssertionFailed

definition DEG2RAD :: real where
  "DEG2RAD = pi / 180"

definition sq :: "real \<Rightarrow> real" where
  "sq x = x * x"

text \<open>The array \<^verbatim>\<open>a2\<close> of \<^verbatim>\<open>setBallVel\<close>, a 3x4 matrix.\<close>

definition ballM34 :: "vec \<Rightarrow> mat" where
  "ballM34 qv = [[- (qv ! 1), qv ! 0, - (qv ! 3), qv ! 2],
                 [- (qv ! 2), qv ! 3, qv ! 0, - (qv ! 1)],
                 [- (qv ! 3), - (qv ! 2), qv ! 1, qv ! 0]]"

text \<open>
  The 4x3 array of \<^verbatim>\<open>calcBallAccel\<close> (\<^verbatim>\<open>a1\<close> from \<^verbatim>\<open>q\<close>, \<^verbatim>\<open>a2\<close> from \<^verbatim>\<open>dq\<close>) and of
  \<^verbatim>\<open>setBallDerivs\<close>.
\<close>

definition ballM43 :: "vec \<Rightarrow> mat" where
  "ballM43 qv = [[- (qv ! 1), - (qv ! 2), - (qv ! 3)],
                 [qv ! 0, qv ! 3, - (qv ! 2)],
                 [- (qv ! 3), qv ! 0, qv ! 1],
                 [qv ! 2, - (qv ! 1), qv ! 0]]"

definition getBallDim :: "ContainedBallJoint \<Rightarrow> nat" where
  "getBallDim bj = (if useEuler bj then 3 else 4)"

definition setBallPos :: "ContainedBallJoint \<Rightarrow> nat \<Rightarrow> vec \<Rightarrow> vec \<Rightarrow> ContainedBallJoint \<times> vec" where
  "setBallPos bj stateOffset posv theta0 =
     (if useEuler bj then (bj, subVec posv stateOffset 3)
      else (bj\<lparr>ball_q := subVec posv stateOffset 4\<rparr>, theta0))"

definition getBallPos :: "ContainedBallJoint \<Rightarrow> vec \<Rightarrow> nat \<Rightarrow> vec \<Rightarrow> vec" where
  "getBallPos bj theta0 stateOffset posv =
     (if useEuler bj then subVecSet posv stateOffset 3 theta0
      else subVecSet posv stateOffset 4 (ball_q bj))"

definition setBallVel :: "ContainedBallJoint \<Rightarrow> nat \<Rightarrow> vec \<Rightarrow> vec \<Rightarrow> ContainedBallJoint \<times> vec" where
  "setBallVel bj stateOffset velv dTheta0 =
     (if useEuler bj then (bj, subVec velv stateOffset 3)
      else (let dq1 = subVec velv stateOffset 4;
                M = ballM34 (ball_q bj)
            in (bj\<lparr>ball_dq := dq1\<rparr>, smul 2 (mv M dq1))))"

definition getBallVel :: "ContainedBallJoint \<Rightarrow> vec \<Rightarrow> nat \<Rightarrow> vec \<Rightarrow> vec" where
  "getBallVel bj dTheta0 stateOffset velv =
     (if useEuler bj then subVecSet velv stateOffset 3 dTheta0
      else subVecSet velv stateOffset 4 (ball_dq bj))"

definition calcBallAccel :: "ContainedBallJoint \<Rightarrow> vec \<Rightarrow> vec \<Rightarrow> ContainedBallJoint" where
  "calcBallAccel bj omega dOmega =
     (if useEuler bj then bj
      else (let M = ballM43 (ball_q bj);
                dM = ballM43 (ball_dq bj)
            in bj\<lparr>ball_ddq := smul (1 / 2) (vadd (mv dM omega) (mv M dOmega))\<rparr>))"

definition getBallAccel :: "ContainedBallJoint \<Rightarrow> vec \<Rightarrow> nat \<Rightarrow> vec \<Rightarrow> vec" where
  "getBallAccel bj ddTheta0 stateOffset accv =
     (if useEuler bj then subVecSet accv stateOffset 3 ddTheta0
      else subVecSet accv stateOffset 4 (ball_ddq bj))"

definition ball_calcR_PB :: "ContainedBallJoint \<Rightarrow> vec \<Rightarrow> ContainedBallJoint \<times> mat" where
  "ball_calcR_PB bj theta0 =
     (if useEuler bj then
        (let cPhi1 = cos (theta0 ! 0 * DEG2RAD);
             sPhi1 = sin (theta0 ! 0 * DEG2RAD);
             cTheta1 = cos (theta0 ! 1 * DEG2RAD);
             sTheta1 = sin (theta0 ! 1 * DEG2RAD);
             cPsi1 = cos (theta0 ! 2 * DEG2RAD);
             sPsi1 = sin (theta0 ! 2 * DEG2RAD);
             R_JiJ =
               [[cPhi1 * cTheta1, - sPhi1 * cPsi1 + cPhi1 * sTheta1 * sPsi1,
                   sPhi1 * sPsi1 + cPhi1 * sTheta1 * cPsi1],
                [sPhi1 * cTheta1, cPhi1 * cPsi1 + sPhi1 * sTheta1 * sPsi1,
                   - cPhi1 * sPsi1 + sPhi1 * sTheta1 * cPsi1],
                [- sTheta1, cTheta1 * sPsi1, cTheta1 * cPsi1]]
         in (bj\<lparr>cPhi := cPhi1, sPhi := sPhi1, cPsi := cPsi1, sPsi := sPsi1,
                 cTheta := cTheta1, sTheta := sTheta1\<rparr>, R_JiJ))
      else
        (let q0 = ball_q bj ! 0; q1 = ball_q bj ! 1; q2 = ball_q bj ! 2; q3 = ball_q bj ! 3;
             R_JiJ =
               [[sq q0 + sq q1 - sq q2 - sq q3, 2 * (q1 * q2 - q0 * q3), 2 * (q1 * q3 + q0 * q2)],
                [2 * (q1 * q2 + q0 * q3), sq q0 - sq q1 + sq q2 - sq q3, 2 * (q2 * q3 - q0 * q1)],
                [2 * (q1 * q3 - q0 * q2), 2 * (q2 * q3 + q0 * q1), sq q0 - sq q1 - sq q2 + sq q3]]
         in (bj, R_JiJ)))"

text \<open>\<^verbatim>\<open>q /= norm(q)\<close> divides every component.\<close>

definition vdiv :: "vec \<Rightarrow> real \<Rightarrow> vec" where
  "vdiv v c = map (\<lambda>x. x / c) v"

definition enforceBallConstraints ::
  "ContainedBallJoint \<Rightarrow> nat \<Rightarrow> vec \<Rightarrow> vec \<Rightarrow> ContainedBallJoint \<times> vec \<times> vec" where
  "enforceBallConstraints bj offset posv velv =
     (if \<not> useEuler bj then
        (let q0 = subVec posv offset 4;
             dq0 = subVec velv offset 4;
             q1 = vdiv q0 (vnorm q0);
             dq1 = vsub dq0 (smul (dot q1 dq0) q1)
         in (bj\<lparr>ball_q := q1, ball_dq := dq1\<rparr>,
             subVecSet posv offset 4 q1, subVecSet velv offset 4 dq1))
      else (bj, posv, velv))"

text \<open>
  \<^verbatim>\<open>enforceBallConstraints\<close> in the arithmetic of doubles: \<^verbatim>\<open>q /= norm(q)\<close> divides every
  component by the rounded norm, \<^verbatim>\<open>dot(q,dq)*q\<close> multiplies every component of the new \<^verbatim>\<open>q\<close>
  by the rounded dot product, and \<^verbatim>\<open>dq -= \<close> subtracts componentwise.
\<close>

definition enforceBallConstraints64 ::
  "ContainedBallJoint \<Rightarrow> nat \<Rightarrow> vec \<Rightarrow> vec \<Rightarrow> ContainedBallJoint \<times> vec \<times> vec" where
  "enforceBallConstraints64 bj offset posv velv =
     (if \<not> useEuler bj then
        (let q0 = subVec posv offset 4;
             dq0 = subVec velv offset 4;
             q1 = map (\<lambda>x. ddiv x (norm64 q0)) q0;
             dq1 = map2 dsub dq0 (map (dmul (dot64 q1 dq0)) q1)
         in (bj\<lparr>ball_q := q1, ball_dq := dq1\<rparr>,
             subVecSet posv offset 4 q1, subVecSet velv offset 4 dq1))
      else (bj, posv, velv))"

text \<open>\<^verbatim>\<open>setBallDerivs\<close> starts with \<^verbatim>\<open>assert( !useEuler )\<close>.\<close>

definition setBallDerivs :: "ContainedBallJoint \<Rightarrow> vec \<Rightarrow> Abort + ContainedBallJoint" where
  "setBallDerivs bj omega =
     (if useEuler bj then Inl AssertionFailed
      else (let M = ballM43 (ball_q bj)
            in Inr (bj\<lparr>ball_dq := mv (msmul (1 / 2) M) omega\<rparr>)))"

text \<open>
  The constructor: \<^verbatim>\<open>q(1.0,0.0,0.0,0.0), dq(0.), ddq(0.), useEuler(shouldUseEuler)\<close>, and
  \<^verbatim>\<open>cnt++\<close> in quaternion mode.  The six trigonometric members are not initialised;
  nothing is known of their values before \<^verbatim>\<open>calcR_PB\<close> writes them.
\<close>

definition newContainedBallJoint :: "nat \<Rightarrow> bool \<Rightarrow> ContainedBallJoint \<times> nat" where
  "newContainedBallJoint cnt shouldUseEuler =
     (\<lparr>ball_q = [1, 0, 0, 0], ball_dq = zeroVec 4, ball_ddq = zeroVec 4,
       cPhi = undefined, sPhi = undefined, cPsi = undefined, sPsi = undefined,
       cTheta = undefined, sTheta = undefined, useEuler = shouldUseEuler\<rparr>,
      if \<not> shouldUseEuler then cnt + 1 else cnt)"

section \<open>The rigid body node\<close>

text \<open>
  \<^verbatim>\<open>RigidBodyNode\<close> with the members of \<^verbatim>\<open>RigidBodyNodeSpec<dof>\<close> and of the joint
  classes in one record; the class of the object is the field \<open>nodeClass\<close>, on which
  the virtual methods dispatch.  The one-letter members \<^verbatim>\<open>a\<close>, \<^verbatim>\<open>b\<close>, \<^verbatim>\<open>z\<close>, \<^verbatim>\<open>P\<close>,
  \<^verbatim>\<open>G\<close>, \<^verbatim>\<open>H\<close>, \<^verbatim>\<open>Y\<close> carry the suffix \<open>k\<close> that the source gives to \<^verbatim>\<open>Mk\<close>.  The
  pointers \<^verbatim>\<open>parent\<close> and \<^verbatim>\<open>children\<close> are indices into a table of nodes, the tree, and
  the state offset, an \<^verbatim>\<open>int\<close> counted up from zero, is a natural number.

  Modelled from the spec: the declarations of \<^verbatim>\<open>RigidBodyNode.h\<close> (not among the
  sources): the members are those that the methods of \<^verbatim>\<open>RigidBodyNode.cpp\<close> use, with
  the types of spec 3.2, and the accessors \<^verbatim>\<open>getR_GP()\<close>, \<^verbatim>\<open>getOP_G()\<close> read \<^verbatim>\<open>R_GB\<close> and
  \<^verbatim>\<open>OB_G\<close> of the parent.
\<close>

datatype NodeClass =
  RBGroundBody | RBNodeTranslate | RBNodeTorsion | RBNodeRotate3
  | RBNodeTranslateRotate3 | RBNodeRotate2 | RBNodeTranslateRotate2

record RBMassProperties =
  mass :: real
  COM_B :: vec
  inertia_OB_B :: mat

record RBFrame =
  Rot_RF :: mat
  Loc_RF :: vec

record RigidBodyNode =
  nodeClass :: NodeClass
  level :: int
  parent :: nat
  children :: "nat list"
  stateOffset :: nat
  mProps_B :: RBMassProperties
  R_BJ :: mat
  refOrigin_P :: vec
  OB_P :: vec
  R_PB :: mat
  R_GB :: mat
  OB_G :: vec
  COM_G :: vec
  COMstation_G :: vec
  inertia_OB_G :: mat
  Mk :: mat
  phi :: PhiMatrix
  V_PB_G :: vec
  sVel :: vec
  sAcc :: vec
  ak :: vec
  bk :: vec
  Pk :: mat
  zk :: vec
  tau :: mat
  psiT :: mat
  Gepsilon :: vec
  Yk :: mat
  theta :: vec
  dTheta :: vec
  ddTheta :: vec
  nu :: vec
  epsilon :: vec
  forceInternal :: vec
  Hk :: mat
  DI :: mat
  Gk :: mat
  ball :: ContainedBallJoint

type_synonym Tree = "nat \<Rightarrow> RigidBodyNode"

text \<open>The template argument \<^verbatim>\<open>dof\<close> of the class of a node.\<close>

definition getDOF :: "NodeClass \<Rightarrow> nat" where
  "getDOF c = (case c of
      RBGroundBody \<Rightarrow> 0
    | RBNodeTranslate \<Rightarrow> 3
    | RBNodeTorsion \<Rightarrow> 1
    | RBNodeRotate3 \<Rightarrow> 3
    | RBNodeTranslateRotate3 \<Rightarrow> 6
    | RBNodeRotate2 \<Rightarrow> 2
    | RBNodeTranslateRotate2 \<Rightarrow> 5)"

subsection \<open>Assembly\<close>

text \<open>
  \<^verbatim>\<open>RigidBodyNode::addChild\<close>, called on the node \<open>p\<close> with the child \<open>c\<close>; the statements
  are applied to the tree one after the other.

  Modelled from the spec: \<^verbatim>\<open>setParent\<close> (\<^verbatim>\<open>RigidBodyNode.h\<close>, not among the sources) stores
  the parent link (spec 3.1: each non-ground node holds a reference to its parent).
\<close>

definition addChild :: "Tree \<Rightarrow> nat \<Rightarrow> nat \<Rightarrow> RBFrame \<Rightarrow> Tree" where
  "addChild t p c referenceFrame =
     (let t1 = t(p := (t p)\<lparr>children := children (t p) @ [c]\<rparr>);
          t2 = t1(c := (t1 c)\<lparr>parent := p\<rparr>);
          t3 = t2(c := (t2 c)\<lparr>refOrigin_P := Loc_RF referenceFrame\<rparr>);
          t4 = t3(c := (t3 c)\<lparr>R_GB := R_GB (t3 p)\<rparr>);
          t5 = t4(c := (t4 c)\<lparr>OB_G := vadd (OB_G (t4 p)) (refOrigin_P (t4 c))\<rparr>);
          t6 = t5(c := (t5 c)\<lparr>COM_G := vadd (OB_G (t5 c)) (COMstation_G (t5 c))\<rparr>)
      in t6)"

subsection \<open>Position kinematics\<close>

text \<open>\<^verbatim>\<open>RigidBodyNode::calcJointIndependentKinematicsPos\<close>; \<open>pn\<close> is the parent node.\<close>

definition calcJointIndependentKinematicsPos :: "RigidBodyNode \<Rightarrow> RigidBodyNode \<Rightarrow> RigidBodyNode" where
  "calcJointIndependentKinematicsPos pn n =
     (let OB_OP_G = mv (R_GB pn) (OB_P n);
          phi1 = PhiMatrix OB_OP_G;
          R_GB1 = mmul (R_GB pn) (R_PB n);
          OB_G1 = vadd (OB_G pn) OB_OP_G;
          inertia1 = orthoTransform (inertia_OB_B (mProps_B n)) R_GB1;
          COMstation1 = mv R_GB1 (COM_B (mProps_B n));
          COM_G1 = vadd OB_G1 COMstation1;
          offDiag = msmul (mass (mProps_B n)) (crossMat COMstation1);
          Mk1 = blockMat22 inertia1 offDiag (mneg offDiag) (msmul (mass (mProps_B n)) ident33)
      in n\<lparr>phi := phi1, R_GB := R_GB1, OB_G := OB_G1, inertia_OB_G := inertia1,
            COMstation_G := COMstation1, COM_G := COM_G1, Mk := Mk1\<rparr>)"

text \<open>
  \<^verbatim>\<open>setJointPos\<close>: the default of \<^verbatim>\<open>RigidBodyNodeSpec\<close> and the overrides of the two
  classes with a ball.  In \<^verbatim>\<open>RBNodeTranslateRotate3\<close> the local \<^verbatim>\<open>CDSVec3 th\<close> is
  default constructed and \<^verbatim>\<open>setBallPos\<close> leaves it alone in quaternion mode; its
  value there is not fixed by the sources.
\<close>

definition setJointPos :: "RigidBodyNode \<Rightarrow> vec \<Rightarrow> RigidBodyNode" where
  "setJointPos n posv = (case nodeClass n of
      RBNodeRotate3 \<Rightarrow>
        (let (b1, th) = setBallPos (ball n) (stateOffset n) posv (theta n)
         in n\<lparr>ball := b1, theta := th\<rparr>)
    | RBNodeTranslateRotate3 \<Rightarrow>
        (let (b1, th) = setBallPos (ball n) (stateOffset n) posv undefined;
             theta1 = subVecSet (theta n) 0 3 th;
             theta2 = subVecSet theta1 3 3 (subVec posv (stateOffset n + getBallDim b1) 3)
         in n\<lparr>ball := b1, theta := theta2\<rparr>)
    | _ \<Rightarrow> n\<lparr>theta := subVec posv (stateOffset n) (getDOF (nodeClass n))\<rparr>)"

text \<open>\<^verbatim>\<open>RBNodeTorsion::calcR_PB\<close> and \<^verbatim>\<open>calcH\<close>.\<close>

definition torsion_calcR_PB :: "RigidBodyNode \<Rightarrow> RigidBodyNode" where
  "torsion_calcR_PB n =
     (let scale = 1;
          sinTau = sin (scale * theta n ! 0);
          cosTau = cos (scale * theta n ! 0);
          R_JiJ = [[cosTau, - sinTau, 0], [sinTau, cosTau, 0], [0, 0, 1]]
      in n\<lparr>R_PB := orthoTransform R_JiJ (R_BJ n)\<rparr>)"

definition torsion_calcH :: "RigidBodyNode \<Rightarrow> RigidBodyNode \<Rightarrow> RigidBodyNode" where
  "torsion_calcH pn n =
     (let zv = mv (R_GB pn) (mv (R_BJ n) [0, 0, 1]);
          zMat = [[0, 0, 0]]
      in n\<lparr>Hk := blockMat12 [zv] zMat\<rparr>)"

text \<open>\<^verbatim>\<open>catRow23\<close>.\<close>

definition catRow23 :: "vec \<Rightarrow> vec \<Rightarrow> mat" where
  "catRow23 v1 v2 = blockMat21 [v1] [v2]"

text \<open>
  \<^verbatim>\<open>calcR_PB\<close> and \<^verbatim>\<open>calcH\<close> of \<^verbatim>\<open>RBNodeRotate2\<close> and of \<^verbatim>\<open>RBNodeTranslateRotate2\<close>: the
  two classes compute the same \<^verbatim>\<open>R_PB\<close>.
\<close>

definition rotate2_calcR_PB :: "RigidBodyNode \<Rightarrow> RigidBodyNode" where
  "rotate2_calcR_PB n =
     (let scale = 1;
          sinPhi = sin (scale * theta n ! 0);
          cosPhi = cos (scale * theta n ! 0);
          sinPsi = sin (scale * theta n ! 1);
          cosPsi = cos (scale * theta n ! 1);
          R_JiJ = [[cosPsi, sinPsi * sinPhi, sinPsi * cosPhi],
                   [0, cosPhi, - sinPhi],
                   [- sinPsi, cosPsi * sinPhi, cosPsi * cosPhi]]
      in n\<lparr>R_PB := orthoTransform R_JiJ (R_BJ n)\<rparr>)"

definition rotate2_calcH :: "RigidBodyNode \<Rightarrow> RigidBodyNode \<Rightarrow> RigidBodyNode" where
  "rotate2_calcH pn n =
     (let scale = 1;
          tmpR_GB = mmul (R_GB pn) (R_PB n);
          x = mv (msmul scale tmpR_GB) (mv (R_BJ n) [1, 0, 0]);
          y = mv (msmul scale tmpR_GB) (mv (R_BJ n) [0, 1, 0]);
          zMat23 = zeroMat 2 3
      in n\<lparr>Hk := blockMat12 (catRow23 x y) zMat23\<rparr>)"

definition translateRotate2_calcH :: "RigidBodyNode \<Rightarrow> RigidBodyNode \<Rightarrow> RigidBodyNode" where
  "translateRotate2_calcH pn n =
     (let scale = 1;
          tmpR_GB = mmul (R_GB pn) (R_PB n);
          x = mv (msmul scale tmpR_GB) (mv (R_BJ n) [1, 0, 0]);
          y = mv (msmul scale tmpR_GB) (mv (R_BJ n) [0, 1, 0]);
          zMat23 = zeroMat 2 3
      in n\<lparr>Hk := blockMat22 (catRow23 x y) zMat23 zero33 (transpose (R_GB pn))\<rparr>)"

text \<open>\<^verbatim>\<open>calcJointKinematicsPos\<close>, pure virtual in \<^verbatim>\<open>RigidBodyNodeSpec\<close>, of each class.\<close>

definition calcJointKinematicsPos :: "RigidBodyNode \<Rightarrow> RigidBodyNode \<Rightarrow> RigidBodyNode" where
  "calcJointKinematicsPos pn n = (case nodeClass n of
      RBGroundBody \<Rightarrow> n
    | RBNodeTranslate \<Rightarrow>
        n\<lparr>OB_P := vadd (refOrigin_P n) (theta n), R_PB := ident33,
          Hk := blockMat12 zero33 (transpose (R_GB pn))\<rparr>
    | RBNodeTorsion \<Rightarrow>
        torsion_calcH pn (torsion_calcR_PB (n\<lparr>OB_P := refOrigin_P n\<rparr>))
    | RBNodeRotate3 \<Rightarrow>
        (let n1 = n\<lparr>OB_P := refOrigin_P n\<rparr>;
             (b1, R1) = ball_calcR_PB (ball n1) (theta n1)
         in n1\<lparr>ball := b1, R_PB := R1, Hk := blockMat12 (transpose (R_GB pn)) zero33\<rparr>)
    | RBNodeTranslateRotate3 \<Rightarrow>
        (let n1 = n\<lparr>OB_P := vadd (refOrigin_P n) (subVec (theta n) 3 3)\<rparr>;
             (b1, R1) = ball_calcR_PB (ball n1) (subVec (theta n1) 0 3)
         in n1\<lparr>ball := b1, R_PB := R1,
               Hk := blockMat22 (transpose (R_GB pn)) zero33 zero33 (transpose (R_GB pn))\<rparr>)
    | RBNodeRotate2 \<Rightarrow>
        rotate2_calcH pn (rotate2_calcR_PB (n\<lparr>OB_P := refOrigin_P n\<rparr>))
    | RBNodeTranslateRotate2 \<Rightarrow>
        translateRotate2_calcH pn
          (rotate2_calcR_PB (n\<lparr>OB_P := vadd (refOrigin_P n) (subVec (theta n) 2 3)\<rparr>)))"

text \<open>
  \<^verbatim>\<open>setPos\<close>: empty in \<^verbatim>\<open>RBGroundBody\<close>; in \<^verbatim>\<open>RigidBodyNodeSpec<dof>\<close> it clears
  \<^verbatim>\<open>forceInternal\<close>, a \<^verbatim>\<open>FixedVector<double,dof>\<close>, and runs the three steps.
\<close>

definition setPos :: "Tree \<Rightarrow> nat \<Rightarrow> vec \<Rightarrow> Tree" where
  "setPos t k posv = (case nodeClass (t k) of
      RBGroundBody \<Rightarrow> t
    | _ \<Rightarrow>
        (let n1 = (t k)\<lparr>forceInternal := zeroVec (getDOF (nodeClass (t k)))\<rparr>;
             n2 = setJointPos n1 posv;
             n3 = calcJointKinematicsPos (t (parent n2)) n2;
             n4 = calcJointIndependentKinematicsPos (t (parent n3)) n3
         in t(k := n4)))"

text \<open>\<^verbatim>\<open>enforceConstraints\<close>: the two classes with a ball delegate to it, the others do nothing.\<close>

definition enforceConstraints :: "Tree \<Rightarrow> nat \<Rightarrow> vec \<Rightarrow> vec \<Rightarrow> Tree \<times> vec \<times> vec" where
  "enforceConstraints t k posv velv =
     (if nodeClass (t k) = RBNodeRotate3 \<or> nodeClass (t k) = RBNodeTranslateRotate3 then
        (let (b1, posv1, velv1) = enforceBallConstraints (ball (t k)) (stateOffset (t k)) posv velv
         in (t(k := (t k)\<lparr>ball := b1\<rparr>), posv1, velv1))
      else (t, posv, velv))"

subsection \<open>Velocity kinematics\<close>

text \<open>Modelled from the spec: \<^verbatim>\<open>cross\<close> (\<^verbatim>\<open>cdsVec3.h\<close>, not among the sources), the vector product.\<close>

definition cross :: "vec \<Rightarrow> vec \<Rightarrow> vec" where
  "cross u v = [u ! 1 * v ! 2 - u ! 2 * v ! 1,
                u ! 2 * v ! 0 - u ! 0 * v ! 2,
                u ! 0 * v ! 1 - u ! 1 * v ! 0]"

text \<open>
  \<^verbatim>\<open>setJointVel\<close>: the default of \<^verbatim>\<open>RigidBodyNodeSpec\<close> and the overrides of the two
  classes with a ball.  \<^verbatim>\<open>setBallVel\<close> assigns its output parameter in both modes, so
  that the local \<^verbatim>\<open>CDSVec3 dTh\<close> of \<^verbatim>\<open>RBNodeTranslateRotate3\<close> is always written.
\<close>

definition setJointVel :: "RigidBodyNode \<Rightarrow> vec \<Rightarrow> RigidBodyNode" where
  "setJointVel n velv = (case nodeClass n of
      RBNodeRotate3 \<Rightarrow>
        (let (b1, dTh) = setBallVel (ball n) (stateOffset n) velv (dTheta n)
         in n\<lparr>ball := b1, dTheta := dTh\<rparr>)
    | RBNodeTranslateRotate3 \<Rightarrow>
        (let (b1, dTh) = setBallVel (ball n) (stateOffset n) velv undefined;
             dTheta1 = subVecSet (dTheta n) 0 3 dTh;
             dTheta2 = subVecSet dTheta1 3 3 (subVec velv (stateOffset n + getBallDim b1) 3)
         in n\<lparr>ball := b1, dTheta := dTheta2\<rparr>)
    | _ \<Rightarrow> n\<lparr>dTheta := subVec velv (stateOffset n) (getDOF (nodeClass n))\<rparr>)"

text \<open>\<^verbatim>\<open>calcJointKinematicsVel\<close>, the same in the six joint classes.\<close>

definition calcJointKinematicsVel :: "RigidBodyNode \<Rightarrow> RigidBodyNode" where
  "calcJointKinematicsVel n = n\<lparr>V_PB_G := mv (transpose (Hk n)) (dTheta n)\<rparr>"

text \<open>
  \<^verbatim>\<open>RigidBodyNode::calcJointIndependentKinematicsVel\<close>; \<open>pn\<close> is the parent node.

  Modelled from the spec: the accessors of \<^verbatim>\<open>RigidBodyNode.h\<close> (not among the sources):
  \<^verbatim>\<open>setSpatialVel\<close> and \<^verbatim>\<open>getSpatialVel\<close> write and read \<^verbatim>\<open>sVel\<close>, \<^verbatim>\<open>getSpatialAngVel\<close> and
  \<^verbatim>\<open>getSpatialLinVel\<close> are its first and its last three components (spec 3.1: a spatial
  vector is split into an angular and a linear part), \<^verbatim>\<open>getMass\<close> is the mass of the
  body's mass properties.
\<close>

definition calcJointIndependentKinematicsVel :: "RigidBodyNode \<Rightarrow> RigidBodyNode \<Rightarrow> RigidBodyNode" where
  "calcJointIndependentKinematicsVel pn n =
     (let sVel1 = vadd (phiTMul (phi n) (sVel pn)) (V_PB_G n);
          omega = subVec sVel1 0 3;
          gMoment = cross omega (mv (inertia_OB_G n) omega);
          gForce = smul (mass (mProps_B n)) (cross omega (cross omega (COMstation_G n)));
          b1 = blockVec gMoment gForce;
          vel = subVec sVel1 3 3;
          pOmega = subVec (sVel pn) 0 3;
          pVel = subVec (sVel pn) 3 3;
          a1 = mv (blockMat22 (crossMat pOmega) zero33 zero33 (crossMat pOmega)) (V_PB_G n);
          a2 = vadd a1 (blockVec (zeroVec 3) (cross pOmega (vsub vel pVel)))
      in n\<lparr>sVel := sVel1, bk := b1, ak := a2\<rparr>)"

text \<open>\<^verbatim>\<open>setVel\<close>: empty in \<^verbatim>\<open>RBGroundBody\<close>; in \<^verbatim>\<open>RigidBodyNodeSpec<dof>\<close> the three steps.\<close>

definition setVel :: "Tree \<Rightarrow> nat \<Rightarrow> vec \<Rightarrow> Tree" where
  "setVel t k velv = (case nodeClass (t k) of
      RBGroundBody \<Rightarrow> t
    | _ \<Rightarrow>
        (let n1 = setJointVel (t k) velv;
             n2 = calcJointKinematicsVel n1;
             n3 = calcJointIndependentKinematicsVel (t (parent n2)) n2
         in t(k := n3)))"

text \<open>
  \<^verbatim>\<open>setVelFromSVel\<close>: empty in \<^verbatim>\<open>RBGroundBody\<close>.  \<open>setVelFromSVel_Spec\<close> is the method of
  \<^verbatim>\<open>RigidBodyNodeSpec<dof>\<close>, which the two classes with a ball call before they pass
  \<^verbatim>\<open>dTheta\<close> (its first three components in \<^verbatim>\<open>RBNodeTranslateRotate3\<close>) to
  \<^verbatim>\<open>setBallDerivs\<close>, whose \<^verbatim>\<open>assert\<close> fails in Euler mode.  The argument \<^verbatim>\<open>sVel\<close> of the
  method, which hides the member, is \<open>sVel0\<close>.
\<close>

definition setVelFromSVel_Spec :: "Tree \<Rightarrow> nat \<Rightarrow> vec \<Rightarrow> RigidBodyNode" where
  "setVelFromSVel_Spec t k sVel0 =
     (let n = t k
      in n\<lparr>dTheta := mv (Hk n) (vsub sVel0 (phiTMul (phi n) (sVel (t (parent n)))))\<rparr>)"

definition setVelFromSVel :: "Tree \<Rightarrow> nat \<Rightarrow> vec \<Rightarrow> Abort + Tree" where
  "setVelFromSVel t k sVel0 = (case nodeClass (t k) of
      RBGroundBody \<Rightarrow> Inr t
    | RBNodeRotate3 \<Rightarrow>
        (let n1 = setVelFromSVel_Spec t k sVel0
         in case setBallDerivs (ball n1) (dTheta n1) of
              Inl e \<Rightarrow> Inl e
            | Inr b1 \<Rightarrow> Inr (t(k := n1\<lparr>ball := b1\<rparr>)))
    | RBNodeTranslateRotate3 \<Rightarrow>
        (let n1 = setVelFromSVel_Spec t k sVel0;
             omega = subVec (dTheta n1) 0 3
         in case setBallDerivs (ball n1) omega of
              Inl e \<Rightarrow> Inl e
            | Inr b1 \<Rightarrow> Inr (t(k := n1\<lparr>ball := b1\<rparr>)))
    | _ \<Rightarrow> Inr (t(k := setVelFromSVel_Spec t k sVel0)))"

subsection \<open>The articulated body recursion\<close>

text \<open>
  \<^verbatim>\<open>calcD_G\<close>.  \<^verbatim>\<open>MatrixTools::inverse\<close> (\<^verbatim>\<open>matrixTools.h\<close>, not among the sources) is
  the parameter \<open>matInverse\<close>: it returns the inverse or throws \<^verbatim>\<open>SingularError\<close>.  The
  handler writes to \<^verbatim>\<open>cerr\<close>, modelled as the list of the items written, and throws an
  \<^verbatim>\<open>InternalDynamics::Exception\<close>; \<^verbatim>\<open>DI\<close> and \<^verbatim>\<open>G\<close> are then left as they were.
\<close>

datatype SingularError = SingularError

datatype Exception = Exception string

datatype CerrItem = CerrStr string | CerrMat mat | CerrInt int | CerrChar char | CerrEndl

definition calcD_G ::
  "(mat \<Rightarrow> SingularError + mat) \<Rightarrow> RigidBodyNode \<Rightarrow> mat \<Rightarrow> CerrItem list
    \<Rightarrow> (Exception + RigidBodyNode) \<times> CerrItem list" where
  "calcD_G matInverse n P0 cerr =
     (let D = orthoTransform P0 (Hk n)
      in case matInverse D of
           Inl SingularError \<Rightarrow>
             (Inl (Exception ''calcD_G: singular D matrix. Bad topology?''),
              cerr @ [CerrStr ''calcD_G: singular D matrix: '', CerrMat D, CerrChar CHR 0x0A,
                      CerrStr ''H matrix: '', CerrMat (Hk n), CerrChar CHR 0x0A,
                      CerrStr ''node level: '', CerrInt (level n), CerrChar CHR 0x0A,
                      CerrStr ''number of children: '', CerrInt (int (length (children n))),
                      CerrChar CHR 0x0A, CerrEndl])
         | Inr DI1 \<Rightarrow>
             (Inr (n\<lparr>DI := DI1, Gk := mmul (mmul P0 (transpose (Hk n))) DI1\<rparr>), cerr))"

text \<open>
  The body of the loop of \<^verbatim>\<open>calcP\<close> for the child \<open>c\<close>: \<open>ob\<close> is \<^verbatim>\<open>getOB_G()\<close> of the
  node, \<open>P0\<close> the matrix \<^verbatim>\<open>P\<close> so far, updated through the four views \<^verbatim>\<open>p11\<close> .. \<^verbatim>\<open>p22\<close>.
\<close>

definition calcP_child :: "Tree \<Rightarrow> vec \<Rightarrow> nat \<Rightarrow> mat \<Rightarrow> mat" where
  "calcP_child t ob c P0 =
     (let lt = crossMat (vsub (OB_G (t c)) ob);
          M = mmul (tau (t c)) (Pk (t c));
          m11 = subMatrix M 0 0 3 3;
          m12 = subMatrix M 0 3 3 3;
          m21 = subMatrix M 3 0 3 3;
          m22 = subMatrix M 3 3 3 3;
          P1 = subMatrixAdd P0 0 0 3 3
                 (msub (msub (madd m11 (mmul lt m21)) (mmul m12 lt)) (mmul (mmul lt m22) lt));
          P2 = subMatrixAdd P1 0 3 3 3 (madd m12 (mmul lt m22));
          P3 = subMatrixAdd P2 3 0 3 3 (msub m21 (mmul m22 lt));
          P4 = subMatrixAdd P3 3 3 3 3 m22
      in P4)"

text \<open>
  \<^verbatim>\<open>calcP\<close>: empty in \<^verbatim>\<open>RBGroundBody\<close>.  The result is the exception thrown, if any, the
  tree and \<^verbatim>\<open>cerr\<close>; when \<^verbatim>\<open>calcD_G\<close> throws, \<^verbatim>\<open>P\<close> has been written already.
\<close>

definition calcP ::
  "(mat \<Rightarrow> SingularError + mat) \<Rightarrow> Tree \<Rightarrow> nat \<Rightarrow> CerrItem list
    \<Rightarrow> Exception option \<times> Tree \<times> CerrItem list" where
  "calcP matInverse t k cerr = (case nodeClass (t k) of
      RBGroundBody \<Rightarrow> (None, t, cerr)
    | _ \<Rightarrow>
        (let n = t k;
             P1 = fold (calcP_child t (OB_G n)) (children n) (Mk n);
             n1 = n\<lparr>Pk := P1\<rparr>
         in case calcD_G matInverse n1 P1 cerr of
              (Inl e, cerr1) \<Rightarrow> (Some e, t(k := n1), cerr1)
            | (Inr n2, cerr1) \<Rightarrow>
                (let tau1 = msub (identMat 6) (mmul (Gk n2) (Hk n2));
                     psiT1 = mmul (transpose tau1) (transpose (phiMat (phi n2)))
                 in (None, t(k := n2\<lparr>tau := tau1, psiT := psiT1\<rparr>), cerr1))))"

text \<open>\<^verbatim>\<open>calcZ\<close>: empty in \<^verbatim>\<open>RBGroundBody\<close>.\<close>

definition calcZ :: "Tree \<Rightarrow> nat \<Rightarrow> vec \<Rightarrow> Tree" where
  "calcZ t k spatialForce = (case nodeClass (t k) of
      RBGroundBody \<Rightarrow> t
    | _ \<Rightarrow>
        (let n = t k;
             z0 = vsub (vadd (mv (Pk n) (ak n)) (bk n)) spatialForce;
             z1 = fold (\<lambda>c z. vadd z (phiMul (phi (t c)) (vadd (zk (t c)) (Gepsilon (t c)))))
                    (children n) z0;
             epsilon1 = vsub (forceInternal n) (mv (Hk n) z1);
             nu1 = mv (DI n) epsilon1;
             Gepsilon1 = mv (Gk n) epsilon1
         in t(k := n\<lparr>zk := z1, epsilon := epsilon1, nu := nu1, Gepsilon := Gepsilon1\<rparr>)))"

text \<open>
  \<^verbatim>\<open>calcJointAccel\<close>: empty but in the two classes with a ball, which pass \<^verbatim>\<open>dTheta\<close>
  and \<^verbatim>\<open>ddTheta\<close> (their first three components in \<^verbatim>\<open>RBNodeTranslateRotate3\<close>) to
  \<^verbatim>\<open>calcBallAccel\<close>.
\<close>

definition calcJointAccel :: "RigidBodyNode \<Rightarrow> RigidBodyNode" where
  "calcJointAccel n = (case nodeClass n of
      RBNodeRotate3 \<Rightarrow> n\<lparr>ball := calcBallAccel (ball n) (dTheta n) (ddTheta n)\<rparr>
    | RBNodeTranslateRotate3 \<Rightarrow>
        (let omega = subVec (dTheta n) 0 3;
             dOmega = subVec (ddTheta n) 0 3
         in n\<lparr>ball := calcBallAccel (ball n) omega dOmega\<rparr>)
    | _ \<Rightarrow> n)"

text \<open>\<^verbatim>\<open>calcAccel\<close>: empty in \<^verbatim>\<open>RBGroundBody\<close>.\<close>

definition calcAccel :: "Tree \<Rightarrow> nat \<Rightarrow> Tree" where
  "calcAccel t k = (case nodeClass (t k) of
      RBGroundBody \<Rightarrow> t
    | _ \<Rightarrow>
        (let n = t k;
             alphap = phiTMul (phi n) (sAcc (t (parent n)));
             ddTheta1 = vsub (nu n) (mv (transpose (Gk n)) alphap);
             sAcc1 = vadd (vadd alphap (mv (transpose (Hk n)) ddTheta1)) (ak n)
         in t(k := calcJointAccel (n\<lparr>ddTheta := ddTheta1, sAcc := sAcc1\<rparr>))))"

text \<open>\<^verbatim>\<open>calcY\<close>: empty in \<^verbatim>\<open>RBGroundBody\<close>.\<close>

definition calcY :: "Tree \<Rightarrow> nat \<Rightarrow> Tree" where
  "calcY t k = (case nodeClass (t k) of
      RBGroundBody \<Rightarrow> t
    | _ \<Rightarrow>
        (let n = t k
         in t(k := n\<lparr>Yk := madd (orthoTransform (DI n) (transpose (Hk n)))
                               (orthoTransform (Yk (t (parent n))) (psiT n))\<rparr>)))"

text \<open>\<^verbatim>\<open>calcInternalForce\<close>: empty in \<^verbatim>\<open>RBGroundBody\<close>.\<close>

definition calcInternalForce :: "Tree \<Rightarrow> nat \<Rightarrow> vec \<Rightarrow> Tree" where
  "calcInternalForce t k spatialForce = (case nodeClass (t k) of
      RBGroundBody \<Rightarrow> t
    | _ \<Rightarrow>
        (let n = t k;
             z0 = vneg spatialForce;
             z1 = fold (\<lambda>c z. vadd z (phiMul (phi (t c)) (zk (t c)))) (children n) z0
         in t(k := n\<lparr>zk := z1, forceInternal := vadd (forceInternal n) (mv (Hk n) z1)\<rparr>)))"

subsection \<open>The node factory\<close>

text \<open>
  The enumeration \<^verbatim>\<open>JointType\<close> with the enumerators that the \<^verbatim>\<open>switch\<close> of
  \<^verbatim>\<open>RigidBodyNode::create\<close> names; \<open>OtherJointType\<close> stands for any other value of
  the underlying integer, which takes the \<^verbatim>\<open>default\<close> label.
\<close>

datatype JointType =
  ThisIsGround | TorsionJoint | UJoint | OrientationJoint | CartesianJoint
  | FreeLineJoint | FreeJoint | SlidingJoint | CylinderJoint | PlanarJoint
  | GimbalJoint | WeldJoint | OtherJointType int

text \<open>
  The constructors.  That of the base class, \<^verbatim>\<open>RigidBodyNode(mProps_B, originOfB_P, rot_BJ,
  originOfJ)\<close>, is in \<^verbatim>\<open>RigidBodyNode.h\<close> and is the parameter \<open>base\<close>; the default
  constructed \<^verbatim>\<open>RBMassProperties()\<close> and \<^verbatim>\<open>RBFrame()\<close> are the parameters \<open>m0\<close> and \<open>f0\<close>.
  \<^verbatim>\<open>RigidBodyNodeSpec<dof>\<close> clears \<^verbatim>\<open>theta\<close>, \<^verbatim>\<open>dTheta\<close>, \<^verbatim>\<open>ddTheta\<close>, \<^verbatim>\<open>forceInternal\<close>,
  takes \<^verbatim>\<open>cnt\<close> as its state offset and advances \<^verbatim>\<open>cnt\<close> by \<^verbatim>\<open>dof\<close>.
\<close>

type_synonym BaseCtor = "RBMassProperties \<Rightarrow> vec \<Rightarrow> mat \<Rightarrow> vec \<Rightarrow> RigidBodyNode"

definition newRBGroundBody :: "BaseCtor \<Rightarrow> RBMassProperties \<Rightarrow> RigidBodyNode" where
  "newRBGroundBody base m0 =
     (base m0 (zeroVec 3) ident33 (zeroVec 3))\<lparr>nodeClass := RBGroundBody\<rparr>"

definition newRigidBodyNodeSpec ::
  "BaseCtor \<Rightarrow> NodeClass \<Rightarrow> RBMassProperties \<Rightarrow> RBFrame \<Rightarrow> nat \<Rightarrow> RigidBodyNode \<times> nat" where
  "newRigidBodyNodeSpec base c mProps jointFrame cnt =
     (let dof = getDOF c
      in ((base mProps (zeroVec 3) (Rot_RF jointFrame) (Loc_RF jointFrame))
            \<lparr>nodeClass := c, stateOffset := cnt, theta := zeroVec dof, dTheta := zeroVec dof,
             ddTheta := zeroVec dof, forceInternal := zeroVec dof\<rparr>,
          cnt + dof))"

definition newBallNode ::
  "BaseCtor \<Rightarrow> NodeClass \<Rightarrow> RBMassProperties \<Rightarrow> RBFrame \<Rightarrow> nat \<Rightarrow> bool \<Rightarrow> RigidBodyNode \<times> nat" where
  "newBallNode base c mProps f0 nextStateOffset shouldUseEuler =
     (let (n, cnt1) = newRigidBodyNodeSpec base c mProps f0 nextStateOffset;
          (b, cnt2) = newContainedBallJoint cnt1 shouldUseEuler
      in (n\<lparr>ball := b\<rparr>, cnt2))"

text \<open>
  \<^verbatim>\<open>RigidBodyNode::create\<close>.  The result is the new node with the advanced
  \<^verbatim>\<open>nxtStateOffset\<close>, or the failure of an \<^verbatim>\<open>assert\<close> (assertions are taken as compiled
  in, so that the final \<^verbatim>\<open>return 0\<close> is not reached).
\<close>

definition create ::
  "BaseCtor \<Rightarrow> RBMassProperties \<Rightarrow> RBFrame \<Rightarrow> RBMassProperties \<Rightarrow> RBFrame \<Rightarrow> JointType
    \<Rightarrow> bool \<Rightarrow> bool \<Rightarrow> nat \<Rightarrow> Abort + RigidBodyNode \<times> nat" where
  "create base m0 f0 m jointFrame type isReversed shouldUseEuler nxtStateOffset =
     (if isReversed then Inl AssertionFailed
      else case type of
          ThisIsGround \<Rightarrow> Inr (newRBGroundBody base m0, nxtStateOffset)
        | TorsionJoint \<Rightarrow> Inr (newRigidBodyNodeSpec base RBNodeTorsion m jointFrame nxtStateOffset)
        | UJoint \<Rightarrow> Inr (newRigidBodyNodeSpec base RBNodeRotate2 m jointFrame nxtStateOffset)
        | OrientationJoint \<Rightarrow>
            Inr (newBallNode base RBNodeRotate3 m f0 nxtStateOffset shouldUseEuler)
        | CartesianJoint \<Rightarrow> Inr (newRigidBodyNodeSpec base RBNodeTranslate m f0 nxtStateOffset)
        | FreeLineJoint \<Rightarrow>
            Inr (newRigidBodyNodeSpec base RBNodeTranslateRotate2 m jointFrame nxtStateOffset)
        | FreeJoint \<Rightarrow>
            Inr (newBallNode base RBNodeTranslateRotate3 m f0 nxtStateOffset shouldUseEuler)
        | _ \<Rightarrow> Inl AssertionFailed)"

text \<open>
  Modelled from the spec: the constructor \<^verbatim>\<open>RigidBodyNode(mProps_B, originOfB_P, rot_BJ,
  originOfJ)\<close> of the base class (\<^verbatim>\<open>RigidBodyNode.h\<close>, not among the sources), as far as
  the spatial acceleration goes.  Spec 4.5: ``Ground's s_acc is zero''; \<^verbatim>\<open>RBGroundBody()\<close>
  runs this constructor and has an empty body, so the constructor is where \<^verbatim>\<open>sAcc\<close> is
  cleared.  What it does to the other members is the parameter \<open>rest\<close>.
\<close>

definition newRigidBodyNode :: "BaseCtor \<Rightarrow> BaseCtor" where
  "newRigidBodyNode rest mProps originOfB_P rot_BJ originOfJ =
     (rest mProps originOfB_P rot_BJ originOfJ)\<lparr>sAcc := zeroVec 6\<rparr>"

subsection \<open>Sequences of calls\<close>

text \<open>
  The methods of \<^verbatim>\<open>RigidBodyNode.cpp\<close> that write to a node, as calls on the nodes of a
  tree: \<open>call\<close> makes one call, \<open>run\<close> a list of calls from left to right.  The failure
  of an \<^verbatim>\<open>assert\<close> ends the run; an exception of \<^verbatim>\<open>calcP\<close> is taken as caught by the caller,
  and the run goes on with the tree as \<^verbatim>\<open>calcP\<close> left it.  What a call writes to \<^verbatim>\<open>cerr\<close>
  or to the vectors passed to \<^verbatim>\<open>enforceConstraints\<close> is dropped.
\<close>

datatype Call =
  AddChild nat nat RBFrame | SetPos nat vec | SetVel nat vec | SetVelFromSVel nat vec
  | EnforceConstraints nat vec vec | CalcP nat | CalcZ nat vec | CalcY nat | CalcAccel nat
  | CalcInternalForce nat vec

fun call :: "(mat \<Rightarrow> SingularError + mat) \<Rightarrow> Call \<Rightarrow> Tree \<Rightarrow> Abort + Tree" where
  "call matInverse (AddChild p c referenceFrame) t = Inr (addChild t p c referenceFrame)"
| "call matInverse (SetPos k posv) t = Inr (setPos t k posv)"
| "call matInverse (SetVel k velv) t = Inr (setVel t k velv)"
| "call matInverse (SetVelFromSVel k sVel0) t = setVelFromSVel t k sVel0"
| "call matInverse (EnforceConstraints k posv velv) t = Inr (fst (enforceConstraints t k posv velv))"
| "call matInverse (CalcP k) t = Inr (fst (snd (calcP matInverse t k [])))"
| "call matInverse (CalcZ k spatialForce) t = Inr (calcZ t k spatialForce)"
| "call matInverse (CalcY k) t = Inr (calcY t k)"
| "call matInverse (CalcAccel k) t = Inr (calcAccel t k)"
| "call matInverse (CalcInternalForce k spatialForce) t = Inr (calcInternalForce t k spatialForce)"

fun run :: "(mat \<Rightarrow> SingularError + mat) \<Rightarrow> Call list \<Rightarrow> Tree \<Rightarrow> Abort + Tree" where
  "run matInverse [] t = Inr t"
| "run matInverse (c # cs) t = (case call matInverse c t of
      Inl e \<Rightarrow> Inl e
    | Inr t1 \<Rightarrow> run matInverse cs t1)"

section \<open>The LAPACK dispatch layer: \<^verbatim>\<open>gesdd\<close> for complex scalars\<close>

text \<open>
  \<^verbatim>\<open>LapackInterface::gesdd<std::complex<float> >\<close> and
  \<^verbatim>\<open>LapackInterface::gesdd<std::complex<double> >\<close> differ only in the scalar type and in
  the FORTRAN routine they call (\<^verbatim>\<open>cgesdd_\<close>, \<^verbatim>\<open>zgesdd_\<close>).  The model records what the
  wrapper allocates and the arguments of its two calls; the size that the workspace
  query returns in \<^verbatim>\<open>work.data[0]\<close> is the parameter \<open>query\<close>.  The condition of the
  \<^verbatim>\<open>if\<close> is the assignment \<^verbatim>\<open>jobz = 'N'\<close>: it stores \<^verbatim>\<open>'N'\<close> in \<^verbatim>\<open>jobz\<close> and is true when
  the stored character is not the null character.  The \<^verbatim>\<open>int\<close>s of the source are
  unbounded integers here; the sizes at which \<^verbatim>\<open>5*mn\<close> overflows are left aside.
\<close>

datatype ComplexKind = ComplexFloat | ComplexDouble

record LapackCall =
  routine :: string
  arg_jobz :: char
  arg_m :: int
  arg_n :: int
  arg_lwork :: int

record GesddRun =
  rwork_size :: int
  work_size :: int
  iwork_size :: int
  calls :: "LapackCall list"

definition gesdd_routine :: "ComplexKind \<Rightarrow> string" where
  "gesdd_routine k = (case k of ComplexFloat \<Rightarrow> ''cgesdd_'' | ComplexDouble \<Rightarrow> ''zgesdd_'')"

definition gesdd_complex :: "ComplexKind \<Rightarrow> (char \<Rightarrow> int \<Rightarrow> int \<Rightarrow> int) \<Rightarrow> char \<Rightarrow> int \<Rightarrow> int \<Rightarrow> GesddRun" where
  "gesdd_complex k query jobz m n =
     (let mn = (if m < n then m else n);
          jobz1 = CHR ''N'';
          rwork = (if (of_char jobz1 :: nat) \<noteq> 0 then 5 * mn else 5 * mn * mn + 7 * mn);
          iwork = 8 * mn;
          call1 = \<lparr>routine = gesdd_routine k, arg_jobz = jobz1, arg_m = m, arg_n = n,
                   arg_lwork = - 1\<rparr>;
          lwork = query jobz1 m n;
          call2 = \<lparr>routine = gesdd_routine k, arg_jobz = jobz1, arg_m = m, arg_n = n,
                   arg_lwork = lwork\<rparr>
      in \<lparr>rwork_size = rwork, work_size = lwork, iwork_size = iwork,
          calls = [call1, call2]\<rparr>)"

text \<open>
  The size of \<^verbatim>\<open>rwork\<close> by comparison of \<^verbatim>\<open>jobz\<close> with \<^verbatim>\<open>'N'\<close>, the intended semantics
  according to the design notes of the specification.
\<close>

definition gesdd_rwork_spec :: "char \<Rightarrow> int \<Rightarrow> int \<Rightarrow> int" where
  "gesdd_rwork_spec jobz m n =
     (let mn = min m n in if jobz = CHR ''N'' then 5 * mn else 5 * mn * mn + 7 * mn)"

section \<open>The formulas of the specification\<close>

text \<open>
  The shapes that the C++ types fix: \<open>isMat m n A\<close> says that \<open>A\<close> has \<open>m\<close> rows of
  \<open>n\<close> entries, as a \<^verbatim>\<open>FixedMatrix<double,m,n>\<close> has.
\<close>

definition isMat :: "nat \<Rightarrow> nat \<Rightarrow> mat \<Rightarrow> bool" where
  "isMat m n A = (length A = m \<and> list_all (\<lambda>r. length r = n) A)"

text \<open>Sums of a list of vectors and of a list of matrices of a given shape.\<close>

definition vsum :: "nat \<Rightarrow> vec list \<Rightarrow> vec" where
  "vsum n vs = foldr vadd vs (zeroVec n)"

definition msum :: "nat \<Rightarrow> nat \<Rightarrow> mat list \<Rightarrow> mat" where
  "msum m n Ms = foldr madd Ms (zeroMat m n)"

text \<open>The conjugation \<open>\<Phi>(r) \<cdot> M \<cdot> \<Phi>(r)\<^sup>T\<close> by the shift operator of the offset \<open>r\<close>.\<close>

definition shiftConj :: "vec \<Rightarrow> mat \<Rightarrow> mat" where
  "shiftConj r M = mmul (mmul (phiMat (PhiMatrix r)) M) (transpose (phiMat (PhiMatrix r)))"

text \<open>
  Spec 4.5, \<^verbatim>\<open>calcP\<close>: \<open>P = M\<^sub>k + \<Sum>\<^sub>c\<^sub>h\<^sub>i\<^sub>l\<^sub>d\<^sub>r\<^sub>e\<^sub>n \<Phi>\<^sub>c \<cdot> (\<tau>\<^sub>c \<cdot> P\<^sub>c) \<cdot> \<Phi>\<^sub>c\<^sup>T\<close>, the shift of a child being that
  of the offset \<open>r = O_child_G - O_B_G\<close>.
\<close>

definition calcP_spec :: "Tree \<Rightarrow> nat \<Rightarrow> mat" where
  "calcP_spec t k =
     madd (Mk (t k))
       (msum 6 6 (map (\<lambda>c. shiftConj (vsub (OB_G (t c)) (OB_G (t k)))
                            (mmul (tau (t c)) (Pk (t c))))
                     (children (t k))))"

text \<open>The same formula with the shift operator \<^verbatim>\<open>phi\<close> that each child holds.\<close>

definition calcP_spec_phi :: "Tree \<Rightarrow> nat \<Rightarrow> mat" where
  "calcP_spec_phi t k =
     madd (Mk (t k))
       (msum 6 6 (map (\<lambda>c. mmul (mmul (phiMat (phi (t c))) (mmul (tau (t c)) (Pk (t c))))
                                 (transpose (phiMat (phi (t c)))))
                     (children (t k))))"

text \<open>
  Spec 4.5, \<^verbatim>\<open>calcZ\<close>: \<open>z = P \<cdot> a + b - f_spatial + \<Sum>\<^sub>c\<^sub>h\<^sub>i\<^sub>l\<^sub>d\<^sub>r\<^sub>e\<^sub>n \<Phi>\<^sub>c \<cdot> (z\<^sub>c + G\<^sub>c \<cdot> \<epsilon>\<^sub>c)\<close>, where \<open>G\<^sub>c \<cdot> \<epsilon>\<^sub>c\<close> is
  the member \<^verbatim>\<open>Gepsilon\<close> of the child.
\<close>

definition calcZ_spec :: "Tree \<Rightarrow> nat \<Rightarrow> vec \<Rightarrow> vec" where
  "calcZ_spec t k f =
     vadd (vsub (vadd (mv (Pk (t k)) (ak (t k))) (bk (t k))) f)
       (vsum 6 (map (\<lambda>c. phiMul (phi (t c)) (vadd (zk (t c)) (Gepsilon (t c))))
                   (children (t k))))"

text \<open>
  Modelled from the spec: what \<^verbatim>\<open>MatrixTools::inverse\<close> (\<^verbatim>\<open>matrixTools.h\<close>, not among the
  sources) does at a matrix \<open>D\<close> (spec 4.5 and 7: \<open>DI = D\<^sup>-\<^sup>1\<close>, and a failure when ``D
  matrix in \<^verbatim>\<open>calcP\<close> is not invertible''): it throws exactly when \<open>D\<close> has no inverse and
  returns an inverse otherwise.
\<close>

definition isInverseOf :: "mat \<Rightarrow> mat \<Rightarrow> bool" where
  "isInverseOf D X =
     (length X = length D \<and> mmul X D = identMat (length D) \<and> mmul D X = identMat (length D))"

definition invertibleMat :: "mat \<Rightarrow> bool" where
  "invertibleMat D = (\<exists>X. isInverseOf D X)"

definition inverseContract :: "(mat \<Rightarrow> SingularError + mat) \<Rightarrow> mat \<Rightarrow> bool" where
  "inverseContract matInverse D =
     (case matInverse D of Inl e \<Rightarrow> \<not> invertibleMat D | Inr X \<Rightarrow> isInverseOf D X)"

text \<open>
  The matrix \<open>D = H \<cdot> P \<cdot> H\<^sup>T\<close> that \<^verbatim>\<open>calcP\<close> hands to \<^verbatim>\<open>calcD_G\<close>, and the items that the
  handler of \<^verbatim>\<open>calcD_G\<close> writes to \<^verbatim>\<open>cerr\<close>.
\<close>

definition calcP_D :: "Tree \<Rightarrow> nat \<Rightarrow> mat" where
  "calcP_D t k =
     orthoTransform (fold (calcP_child t (OB_G (t k))) (children (t k)) (Mk (t k))) (Hk (t k))"

definition singularReport :: "RigidBodyNode \<Rightarrow> mat \<Rightarrow> CerrItem list" where
  "singularReport n D =
     [CerrStr ''calcD_G: singular D matrix: '', CerrMat D, CerrChar CHR 0x0A,
      CerrStr ''H matrix: '', CerrMat (Hk n), CerrChar CHR 0x0A,
      CerrStr ''node level: '', CerrInt (level n), CerrChar CHR 0x0A,
      CerrStr ''number of children: '', CerrInt (int (length (children n))),
      CerrChar CHR 0x0A, CerrEndl]"

text \<open>Spec 4.5, \<^verbatim>\<open>calcInternalForce\<close>: \<open>z = - f_spatial + \<Sum>\<^sub>c\<^sub>h\<^sub>i\<^sub>l\<^sub>d\<^sub>r\<^sub>e\<^sub>n \<Phi>\<^sub>c \<cdot> z\<^sub>c\<close>.\<close>

definition calcInternalForce_spec :: "Tree \<Rightarrow> nat \<Rightarrow> vec \<Rightarrow> vec" where
  "calcInternalForce_spec t k f =
     vadd (vneg f) (vsum 6 (map (\<lambda>c. phiMul (phi (t c)) (zk (t c))) (children (t k))))"

text \<open>
  Spec 4.4 and 6: the joint family of each supported joint type; the other joint types
  have none.
\<close>

definition jointFamily :: "JointType \<Rightarrow> NodeClass option" where
  "jointFamily ty = (case ty of
      ThisIsGround \<Rightarrow> Some RBGroundBody
    | TorsionJoint \<Rightarrow> Some RBNodeTorsion
    | UJoint \<Rightarrow> Some RBNodeRotate2
    | OrientationJoint \<Rightarrow> Some RBNodeRotate3
    | CartesianJoint \<Rightarrow> Some RBNodeTranslate
    | FreeLineJoint \<Rightarrow> Some RBNodeTranslateRotate2
    | FreeJoint \<Rightarrow> Some RBNodeTranslateRotate3
    | _ \<Rightarrow> None)"

text \<open>A list of six elements written out; used to expand a 6x6 matrix into its entries.\<close>

definition expand6 :: "'a list \<Rightarrow> 'a list" where
  "expand6 r = [r ! 0, r ! 1, r ! 2, r ! 3, r ! 4, r ! 5]"

section \<open>An example system\<close>

text \<open>
  A chain of three nodes on which the theorems below are exercised: the ground (node 0), a
  body on a torsion joint (node 1) and, hanging from it at the offset \<open>(1, 0, 0)\<close>, a body
  on a ball joint in quaternion mode (node 2); beside them a body on a free joint in
  quaternion mode, attached to the ground (node 3).  \<open>exampleBase\<close> plays the
  constructor of the base class: it stores its arguments and clears the rest.
  \<open>exInverse\<close> inverts a matrix of one entry and takes a matrix whose first entry is zero
  for singular.
\<close>

definition exampleBase :: BaseCtor where
  "exampleBase m originOfB_P rot_BJ originOfJ =
     \<lparr>nodeClass = RBGroundBody, level = 0, parent = 0, children = [], stateOffset = 0,
      mProps_B = m, R_BJ = rot_BJ, refOrigin_P = originOfB_P, OB_P = zeroVec 3,
      R_PB = ident33, R_GB = ident33, OB_G = zeroVec 3, COM_G = zeroVec 3,
      COMstation_G = zeroVec 3, inertia_OB_G = zero33, Mk = zeroMat 6 6,
      phi = PhiMatrix (zeroVec 3), V_PB_G = zeroVec 6, sVel = zeroVec 6, sAcc = zeroVec 6,
      ak = zeroVec 6, bk = zeroVec 6, Pk = zeroMat 6 6, zk = zeroVec 6, tau = zeroMat 6 6,
      psiT = zeroMat 6 6, Gepsilon = zeroVec 6, Yk = zeroMat 6 6, theta = [], dTheta = [],
      ddTheta = [], nu = [], epsilon = [], forceInternal = [], Hk = [], DI = [],
      Gk = zeroMat 6 0, ball = fst (newContainedBallJoint 0 True)\<rparr>"

definition exMass :: RBMassProperties where
  "exMass = \<lparr>mass = 2, COM_B = [0, 0, 0], inertia_OB_B = ident33\<rparr>"

definition exFrame :: RBFrame where
  "exFrame = \<lparr>Rot_RF = ident33, Loc_RF = [0, 0, 0]\<rparr>"

definition diag6 :: "real \<Rightarrow> mat" where
  "diag6 d = [[d,0,0,0,0,0],[0,d,0,0,0,0],[0,0,d,0,0,0],[0,0,0,d,0,0],[0,0,0,0,d,0],[0,0,0,0,0,d]]"

definition exGround :: RigidBodyNode where
  "exGround = (newRBGroundBody exampleBase exMass)\<lparr>children := [1, 3]\<rparr>"

definition exBody1 :: RigidBodyNode where
  "exBody1 = (fst (newRigidBodyNodeSpec exampleBase RBNodeTorsion exMass exFrame 0))
     \<lparr>level := 1, parent := 0, children := [2], Mk := diag6 2, Pk := diag6 2,
      sAcc := [0, 0, 1, 0, 0, 0], ak := [0, 0, 1, 0, 0, 0], bk := [0, 0, 0, 0, 1, 0],
      nu := [1], forceInternal := [5], Hk := [[0, 0, 1, 0, 0, 0]], DI := [[1 / 2]],
      Gk := [[0], [0], [1], [0], [0], [0]]\<rparr>"

definition exBody2 :: RigidBodyNode where
  "exBody2 = (fst (newBallNode exampleBase RBNodeRotate3 exMass exFrame 1 False))
     \<lparr>level := 2, parent := 1, OB_G := [1, 0, 0], phi := PhiMatrix [1, 0, 0],
      Pk := diag6 3, tau := diag6 1, zk := [0, 0, 0, 0, 1, 0], Gepsilon := [0, 0, 0, 0, 0, 1],
      sAcc := zeroVec 6, ak := [1, 0, 0, 0, 0, 0], nu := [1, 2, 3],
      dTheta := [0, 0, 1],
      Hk := blockMat12 ident33 zero33, Gk := transpose (blockMat12 ident33 zero33),
      DI := ident33,
      ball := (fst (newContainedBallJoint 1 False))\<lparr>ball_dq := [0, 0, 0, 1 / 2]\<rparr>\<rparr>"

definition exBody3 :: RigidBodyNode where
  "exBody3 = (fst (newBallNode exampleBase RBNodeTranslateRotate3 exMass exFrame 5 False))
     \<lparr>level := 1, parent := 0, nu := [1, 2, 3, 4, 5, 6], dTheta := [0, 0, 1, 0, 0, 0],
      ak := [0, 0, 0, 1, 0, 0], Hk := diag6 1, Gk := diag6 1, DI := diag6 1\<rparr>"

definition exTree :: Tree where
  "exTree = (\<lambda>i. if i = 0 then exGround else if i = 1 then exBody1
                  else if i = 2 then exBody2 else exBody3)"

text \<open>
  The example tree with, in place of its ground, the ground as \<^verbatim>\<open>create\<close> returns it,
  before any child is added.
\<close>

definition exFresh :: Tree where
  "exFresh = exTree(0 := newRBGroundBody (newRigidBodyNode exampleBase) exMass)"

definition exInverse :: "mat \<Rightarrow> SingularError + mat" where
  "exInverse D = (if D ! 0 ! 0 = 0 then Inl SingularError else Inr [[1 / (D ! 0 ! 0)]])"

text \<open>A ball in quaternion mode as its constructor leaves it.\<close>

definition exQuatBall :: ContainedBallJoint where
  "exQuatBall = fst (newContainedBallJoint 0 False)"

section \<open>Shapes and sums\<close>

lemma len3: "length (xs::'a list) = 3 \<Longrightarrow> \<exists>a b c. xs = [a, b, c]"
  by (auto simp: length_Suc_conv numeral_3_eq_3)

lemma len4: "length (xs::'a list) = 4 \<Longrightarrow> \<exists>a b c d. xs = [a, b, c, d]"
  by (auto simp: length_Suc_conv numeral_eq_Suc)

lemma len6: "length (xs::'a list) = 6 \<Longrightarrow> xs = expand6 xs"
  by (auto simp: length_Suc_conv numeral_eq_Suc expand6_def)

lemma isMat66_expand:
  assumes "isMat 6 6 A"
  shows "A = map expand6 (expand6 A)"
proof -
  have "length A = 6" using assms by (simp add: isMat_def)
  hence A: "A = expand6 A" by (rule len6)
  have "\<forall>r \<in> set A. r = expand6 r" using assms len6 by (auto simp: isMat_def list_all_iff)
  hence "map expand6 A = A" by (simp add: map_idI)
  hence "map expand6 (expand6 A) = A" using A by simp
  thus ?thesis by simp
qed

lemma vadd_assoc: "vadd (vadd u v) w = vadd u (vadd v w)"
  unfolding vadd_def
  by (induction u arbitrary: v w) (auto split: list.splits simp: zip_Cons1)

lemma madd_assoc: "madd (madd A B) C = madd A (madd B C)"
  unfolding madd_def
  by (induction A arbitrary: B C) (auto split: list.splits simp: zip_Cons1 vadd_assoc)

lemma vadd_zero: "length u = n \<Longrightarrow> vadd u (zeroVec n) = u"
  unfolding vadd_def zeroVec_def
  by (induction u arbitrary: n) auto

lemma madd_zero: "isMat m n A \<Longrightarrow> madd A (zeroMat m n) = A"
  unfolding madd_def zeroMat_def isMat_def
  by (induction A arbitrary: m) (auto simp: vadd_zero)

lemma isMat_madd: "isMat m n A \<Longrightarrow> isMat m n B \<Longrightarrow> isMat m n (madd A B)"
  unfolding madd_def isMat_def vadd_def
  by (auto simp: list_all_iff dest!: set_zip_leftD set_zip_rightD elim!: in_set_zipE)

lemma length_transpose66: "isMat 6 6 B \<Longrightarrow> length (transpose B) = 6"
  by (subst isMat66_expand, assumption) (simp add: expand6_def)

lemma isMat_mmul66: "isMat 6 6 A \<Longrightarrow> isMat 6 6 B \<Longrightarrow> isMat 6 6 (mmul A B)"
  by (simp add: isMat_def mmul_def list_all_iff length_transpose66)

lemma isMat_phiMat: "isMat 6 6 (phiMat p)" "isMat 6 6 (transpose (phiMat p))"
  by (simp_all add: isMat_def phiMat_def blockMat22_def blockMat21_def blockMat12_def
      crossMat_def ident33_def zero33_def)

lemma isMat_shiftConj: "isMat 6 6 M \<Longrightarrow> isMat 6 6 (shiftConj r M)"
  unfolding shiftConj_def by (intro isMat_mmul66 isMat_phiMat)

lemma length_vadd: "length (vadd u v) = min (length u) (length v)"
  by (simp add: vadd_def)

lemma length_vsub: "length (vsub u v) = min (length u) (length v)"
  by (simp add: vsub_def)

lemma length_mv: "length (mv A v) = length A"
  by (simp add: mv_def)

lemma length_phiMul: "length (phiMul p v) = 6"
  by (simp add: phiMul_def mv_def phiMat_def blockMat22_def blockMat21_def blockMat12_def
      crossMat_def ident33_def zero33_def)

lemma fold_vadd:
  assumes "length z0 = n" "\<forall>c \<in> set cs. length (g c) = n"
  shows "fold (\<lambda>c z. vadd z (g c)) cs z0 = vadd z0 (vsum n (map g cs))"
  using assms
proof (induction cs arbitrary: z0)
  case Nil
  then show ?case by (simp add: vsum_def vadd_zero)
next
  case (Cons c cs)
  have "length (vadd z0 (g c)) = n" using Cons.prems by (simp add: length_vadd)
  with Cons.IH[of "vadd z0 (g c)"] Cons.prems(2) show ?case
    by (simp add: vsum_def vadd_assoc)
qed

lemma dot_zero_left: "dot (replicate n 0) c = 0"
  unfolding dot_def by (induction n arbitrary: c) (auto simp: zip_Cons1 split: list.splits)

lemma not_invertible_zero33: "\<not> invertibleMat zero33"
proof
  assume "invertibleMat zero33"
  then obtain X where "mmul zero33 X = identMat (length zero33)"
    unfolding invertibleMat_def isInverseOf_def by blast
  hence "map (dot (replicate 3 0)) (transpose X) = [1, 0, 0]"
    by (simp add: mmul_def zero33_def identMat_def upt_rec eval_nat_numeral)
  hence "\<exists>c. dot (replicate 3 0) c = 1" by (cases "transpose X") auto
  thus False by (simp add: dot_zero_left)
qed

lemma dot_self_nonneg: "0 \<le> dot v v"
  unfolding dot_def by (induction v) auto

lemma dot_self_zero: "dot v v = 0 \<Longrightarrow> v = zeroVec (length v)"
  unfolding dot_def zeroVec_def
proof (induction v)
  case Nil
  thus ?case by simp
next
  case (Cons x xs)
  have "0 \<le> sum_list (map2 (*) xs xs)" using dot_self_nonneg[of xs] by (simp add: dot_def)
  moreover have "x * x + sum_list (map2 (*) xs xs) = 0" using Cons.prems by simp
  moreover have "0 \<le> x * x" by simp
  ultimately have "x * x = 0 \<and> sum_list (map2 (*) xs xs) = 0" by linarith
  thus ?case using Cons.IH by simp
qed

lemma vnorm_sq: "(vnorm v)\<^sup>2 = dot v v"
  by (simp add: vnorm_def dot_self_nonneg)

lemma subVec_subVecSet:
  "off + n \<le> length v \<Longrightarrow> length u = n \<Longrightarrow> subVec (subVecSet v off n u) off n = u"
  by (simp add: subVec_def subVecSet_def)

lemma length_subVec: "off + n \<le> length v \<Longrightarrow> length (subVec v off n) = n"
  by (simp add: subVec_def)

lemma length_vdiv: "length (vdiv v c) = length v"
  by (simp add: vdiv_def)

lemma length_smul: "length (smul c v) = length v"
  by (simp add: smul_def)

lemma vnorm_vdiv_unit:
  assumes "length qv = 4" "qv \<noteq> zeroVec 4"
  shows "vnorm (vdiv qv (vnorm qv)) = 1"
proof -
  have nz: "dot qv qv \<noteq> 0" using dot_self_zero[of qv] assms by auto
  hence pos: "0 < dot qv qv" using dot_self_nonneg[of qv] by linarith
  obtain a b c d where q: "qv = [a, b, c, d]" using len4[OF assms(1)] by blast
  have "dot (vdiv qv (vnorm qv)) (vdiv qv (vnorm qv)) = dot qv qv / (vnorm qv * vnorm qv)"
    unfolding q by (simp add: dot_def vdiv_def add_divide_distrib)
  also have "vnorm qv * vnorm qv = dot qv qv" using pos by (simp add: vnorm_def)
  finally have "dot (vdiv qv (vnorm qv)) (vdiv qv (vnorm qv)) = 1" using nz by simp
  thus ?thesis by (simp add: vnorm_def)
qed

lemma dot_projected_zero:
  assumes "length qv = 4" "length dv = 4" "vnorm qv = 1"
  shows "dot qv (vsub dv (smul (dot qv dv) qv)) = 0"
proof -
  obtain a b c d where q: "qv = [a, b, c, d]" using len4[OF assms(1)] by blast
  obtain e f g h where d: "dv = [e, f, g, h]" using len4[OF assms(2)] by blast
  have "dot qv qv = 1" using assms(3) vnorm_sq[of qv] by simp
  hence 1: "a * a + b * b + c * c + d * d = 1" unfolding q by (simp add: dot_def)
  have "dot qv (vsub dv (smul (dot qv dv) qv)) =
        (a * e + b * f + c * g + d * h) * (1 - (a * a + b * b + c * c + d * d))"
    unfolding q d by (simp add: dot_def vsub_def smul_def algebra_simps)
  thus ?thesis using 1 by simp
qed

lemma zeroVec_eval:
  "zeroVec 0 = []" "zeroVec 1 = [0]" "zeroVec 2 = [0, 0]" "zeroVec 3 = [0, 0, 0]" "zeroVec 4 = [0, 0, 0, 0]"
  "zeroVec 5 = [0, 0, 0, 0, 0]" "zeroVec 6 = [0, 0, 0, 0, 0, 0]"
  by (simp_all add: zeroVec_def eval_nat_numeral)

lemma zeroMat66_eval: "zeroMat 6 6 = diag6 0"
  by (simp add: zeroMat_def zeroVec_def diag6_def eval_nat_numeral)

lemma identMat6_eval: "identMat 6 = diag6 1"
  by (simp add: identMat_def diag6_def upt_rec)

lemma ex_simps:
  "nodeClass (exTree (Suc 0)) = RBNodeTorsion" "children (exTree (Suc 0)) = [2]" "Mk (exTree (Suc 0)) = diag6 2"
  "tau (exTree 2) = diag6 1" "Pk (exTree 2) = diag6 3" "OB_G (exTree (Suc 0)) = [0,0,0]" "OB_G (exTree 2) = [1,0,0]"
  by (simp_all add: exTree_def exBody1_def exBody2_def newRigidBodyNodeSpec_def newBallNode_def exampleBase_def Let_def zeroVec_eval split: prod.splits)

lemma exTree_nodes: "exTree 0 = exGround" "exTree (Suc 0) = exBody1" "exTree 2 = exBody2"
  "exTree 3 = exBody3"
  by (simp_all add: exTree_def)

lemma exBody1_fields:
  "nodeClass exBody1 = RBNodeTorsion" "children exBody1 = [2]" "parent exBody1 = 0"
  "Pk exBody1 = diag6 2" "Mk exBody1 = diag6 2"
  "ak exBody1 = [0, 0, 1, 0, 0, 0]" "bk exBody1 = [0, 0, 0, 0, 1, 0]"
  "forceInternal exBody1 = [5]" "Hk exBody1 = [[0, 0, 1, 0, 0, 0]]" "DI exBody1 = [[1 / 2]]"
  "Gk exBody1 = [[0], [0], [1], [0], [0], [0]]" "sAcc exBody1 = [0, 0, 1, 0, 0, 0]"
  "OB_G exBody1 = [0, 0, 0]" "level exBody1 = 1" "phi exBody1 = PhiMatrix [0, 0, 0]"
  by (simp_all add: exBody1_def newRigidBodyNodeSpec_def exampleBase_def Let_def zeroVec_eval)

lemma exBody2_fields:
  "nodeClass exBody2 = RBNodeRotate3" "children exBody2 = []" "parent exBody2 = 1"
  "phi exBody2 = PhiMatrix [1, 0, 0]" "zk exBody2 = [0, 0, 0, 0, 1, 0]"
  "Gepsilon exBody2 = [0, 0, 0, 0, 0, 1]" "OB_G exBody2 = [1, 0, 0]"
  "tau exBody2 = diag6 1" "Pk exBody2 = diag6 3" "Mk exBody2 = zeroMat 6 6"
  "ak exBody2 = [1, 0, 0, 0, 0, 0]" "nu exBody2 = [1, 2, 3]" "dTheta exBody2 = [0, 0, 1]"
  "Hk exBody2 = [[1, 0, 0, 0, 0, 0], [0, 1, 0, 0, 0, 0], [0, 0, 1, 0, 0, 0]]"
  "Gk exBody2 = [[1, 0, 0], [0, 1, 0], [0, 0, 1], [0, 0, 0], [0, 0, 0], [0, 0, 0]]"
  "useEuler (ball exBody2) = False" "ball_q (ball exBody2) = [1, 0, 0, 0]"
  "ball_dq (ball exBody2) = [0, 0, 0, 1 / 2]" "level exBody2 = 2"
  by (simp_all add: exBody2_def newBallNode_def newRigidBodyNodeSpec_def newContainedBallJoint_def
      exampleBase_def Let_def zeroVec_eval blockMat12_def ident33_def zero33_def split: prod.splits)

lemma exBody3_fields:
  "nodeClass exBody3 = RBNodeTranslateRotate3" "parent exBody3 = 0"
  "phi exBody3 = PhiMatrix [0, 0, 0]" "nu exBody3 = [1, 2, 3, 4, 5, 6]"
  "dTheta exBody3 = [0, 0, 1, 0, 0, 0]" "ak exBody3 = [0, 0, 0, 1, 0, 0]"
  "Hk exBody3 = diag6 1" "Gk exBody3 = diag6 1"
  "useEuler (ball exBody3) = False" "ball_q (ball exBody3) = [1, 0, 0, 0]"
  "ball_dq (ball exBody3) = [0, 0, 0, 0]" "stateOffset exBody3 = 5"
  by (simp_all add: exBody3_def newBallNode_def newRigidBodyNodeSpec_def newContainedBallJoint_def
      exampleBase_def Let_def zeroVec_eval split: prod.splits)

lemma exBody2_ball: "stateOffset exBody2 = 1"
  "ball exBody2 = (fst (newContainedBallJoint 1 False))\<lparr>ball_dq := [0, 0, 0, 1 / 2]\<rparr>"
  by (simp_all add: exBody2_def newBallNode_def newRigidBodyNodeSpec_def Let_def
      split: prod.splits)

lemma exGround_fields: "nodeClass exGround = RBGroundBody" "R_GB exGround = ident33"
  "sAcc exGround = zeroVec 6" "OB_G exGround = [0, 0, 0]"
  by (simp_all add: exGround_def newRBGroundBody_def exampleBase_def zeroVec_eval)

lemma exBody1_frame: "R_BJ exBody1 = ident33" "stateOffset exBody1 = 0"
  by (simp_all add: exBody1_def newRigidBodyNodeSpec_def exampleBase_def exFrame_def Let_def)

section \<open>The articulated inertia: blocks against the shift conjugation\<close>

text \<open>
  The four block updates of the loop of \<^verbatim>\<open>calcP\<close>, on matrices written out entry by
  entry, add \<open>\<Phi>(r) \<cdot> M \<cdot> \<Phi>(r)\<^sup>T\<close>.
\<close>

lemma calcP_blocks_explicit:
  "subMatrixAdd (subMatrixAdd (subMatrixAdd (subMatrixAdd (map expand6 (expand6 Q0)) 0 0 3 3
       (msub (msub (madd (subMatrix (map expand6 (expand6 M0)) 0 0 3 3)
                      (mmul (crossMat r) (subMatrix (map expand6 (expand6 M0)) 3 0 3 3)))
                (mmul (subMatrix (map expand6 (expand6 M0)) 0 3 3 3) (crossMat r)))
          (mmul (mmul (crossMat r) (subMatrix (map expand6 (expand6 M0)) 3 3 3 3)) (crossMat r))))
      0 3 3 3 (madd (subMatrix (map expand6 (expand6 M0)) 0 3 3 3)
                 (mmul (crossMat r) (subMatrix (map expand6 (expand6 M0)) 3 3 3 3))))
      3 0 3 3 (msub (subMatrix (map expand6 (expand6 M0)) 3 0 3 3)
                 (mmul (subMatrix (map expand6 (expand6 M0)) 3 3 3 3) (crossMat r))))
      3 3 3 3 (subMatrix (map expand6 (expand6 M0)) 3 3 3 3)
   = madd (map expand6 (expand6 Q0)) (shiftConj r (map expand6 (expand6 M0)))"
  unfolding shiftConj_def phiMat_def blockMat22_def blockMat21_def blockMat12_def crossMat_def
    ident33_def zero33_def expand6_def
  apply (simp add: subMatrix_def subMatrixAdd_def mmul_def madd_def msub_def dot_def vadd_def
      vsub_def)
  apply (simp add: algebra_simps)
  done

lemma calcP_child_eq:
  assumes "isMat 6 6 P0" "isMat 6 6 (tau (t c))" "isMat 6 6 (Pk (t c))"
  shows "calcP_child t ob c P0 =
         madd P0 (shiftConj (vsub (OB_G (t c)) ob) (mmul (tau (t c)) (Pk (t c))))"
proof -
  have M: "isMat 6 6 (mmul (tau (t c)) (Pk (t c)))" using assms by (simp add: isMat_mmul66)
  have 1: "map expand6 (expand6 (mmul (tau (t c)) (Pk (t c)))) = mmul (tau (t c)) (Pk (t c))"
    using isMat66_expand[OF M] by simp
  have 2: "map expand6 (expand6 P0) = P0" using isMat66_expand[OF assms(1)] by simp
  show ?thesis
    using calcP_blocks_explicit[of P0 "mmul (tau (t c)) (Pk (t c))" "vsub (OB_G (t c)) ob"]
    unfolding calcP_child_def Let_def 1 2 .
qed

lemma fold_calcP_child:
  assumes "isMat 6 6 P0" "\<forall>c \<in> set cs. isMat 6 6 (tau (t c)) \<and> isMat 6 6 (Pk (t c))"
  shows "fold (calcP_child t ob) cs P0 =
         madd P0 (msum 6 6 (map (\<lambda>c. shiftConj (vsub (OB_G (t c)) ob)
                                      (mmul (tau (t c)) (Pk (t c)))) cs))"
  using assms
proof (induction cs arbitrary: P0)
  case Nil
  then show ?case by (simp add: msum_def madd_zero)
next
  case (Cons c cs)
  let ?S = "shiftConj (vsub (OB_G (t c)) ob) (mmul (tau (t c)) (Pk (t c)))"
  have S: "isMat 6 6 ?S" using Cons.prems by (simp add: isMat_shiftConj isMat_mmul66)
  have step: "calcP_child t ob c P0 = madd P0 ?S" using Cons.prems by (simp add: calcP_child_eq)
  have "isMat 6 6 (madd P0 ?S)" using Cons.prems(1) S by (rule isMat_madd)
  with Cons.IH[of "madd P0 ?S"] Cons.prems(2) step show ?case
    by (simp add: msum_def madd_assoc)
qed

lemma calcP_Pk:
  assumes "nodeClass (t k) \<noteq> RBGroundBody"
  shows "Pk (fst (snd (calcP matInverse t k cerr)) k) =
         fold (calcP_child t (OB_G (t k))) (children (t k)) (Mk (t k))"
  using assms
  by (cases "nodeClass (t k)")
     (simp_all add: calcP_def calcD_G_def Let_def split: sum.splits SingularError.splits)

text \<open>
  The position pass leaves in a node the shift operator of the offset from the origin of
  its parent to its own, so that the \<^verbatim>\<open>phi\<close> of a child is the \<open>\<Phi>(r)\<close> of the loop of
  \<^verbatim>\<open>calcP\<close> once both nodes have been through it.
\<close>

lemma vsub_vadd_cancel: "length x \<le> length u \<Longrightarrow> vsub (vadd u x) u = x"
proof (induction x arbitrary: u)
  case Nil
  then show ?case by (simp add: vsub_def vadd_def)
next
  case (Cons a x)
  then obtain b u' where u: "u = b # u'" by (cases u) auto
  with Cons.prems have "length x \<le> length u'" by simp
  hence "vsub (vadd u' x) u' = x" by (rule Cons.IH)
  thus ?case unfolding u by (simp add: vsub_def vadd_def)
qed

lemma position_pass_phi:
  assumes "length (R_GB pn) \<le> length (OB_G pn)"
  shows "phi (calcJointIndependentKinematicsPos pn n) =
         PhiMatrix (vsub (OB_G (calcJointIndependentKinematicsPos pn n)) (OB_G pn))"
  using assms
  by (simp add: calcJointIndependentKinematicsPos_def Let_def vsub_vadd_cancel length_mv)

lemma calcP_spec_phi_eq:
  assumes "list_all (\<lambda>c. phi (t c) = PhiMatrix (vsub (OB_G (t c)) (OB_G (t k)))) (children (t k))"
  shows "calcP_spec_phi t k = calcP_spec t k"
proof -
  have "map (\<lambda>c. mmul (mmul (phiMat (phi (t c))) (mmul (tau (t c)) (Pk (t c))))
                     (transpose (phiMat (phi (t c))))) (children (t k)) =
        map (\<lambda>c. shiftConj (vsub (OB_G (t c)) (OB_G (t k))) (mmul (tau (t c)) (Pk (t c))))
            (children (t k))"
    using assms by (intro map_cong) (auto simp: list_all_iff shiftConj_def)
  thus ?thesis unfolding calcP_spec_phi_def calcP_spec_def by (simp only:)
qed

text \<open>
  C3.  For a node of class \<^verbatim>\<open>RigidBodyNodeSpec<dof>\<close> whose \<^verbatim>\<open>Mk\<close> and whose children's
  \<^verbatim>\<open>tau\<close> and \<^verbatim>\<open>P\<close> are 6x6 matrices, each pass of the loop of \<^verbatim>\<open>calcP\<close> adds to \<^verbatim>\<open>P\<close>,
  through the four 3x3 blocks, the conjugation \<open>\<Phi>(r) \<cdot> (\<tau>\<^sub>c \<cdot> P\<^sub>c) \<cdot> \<Phi>(r)\<^sup>T\<close> with
  \<open>r = O_child_G - O_B_G\<close>, and \<^verbatim>\<open>calcP\<close> leaves \<open>P = M\<^sub>k + \<Sum>\<^sub>c \<Phi>(r\<^sub>c) \<cdot> (\<tau>\<^sub>c \<cdot> P\<^sub>c) \<cdot> \<Phi>(r\<^sub>c)\<^sup>T\<close> in the
  node, whether or not \<^verbatim>\<open>calcD_G\<close> throws afterwards; when every child holds the shift
  operator of that offset, as the position pass leaves it, \<open>\<Phi>(r\<^sub>c)\<close> is the \<^verbatim>\<open>phi\<close> of the child.
\<close>

theorem calcP_shift_conjugation:
  assumes "nodeClass (t k) \<noteq> RBGroundBody"
    and "isMat 6 6 (Mk (t k))"
    and "list_all (\<lambda>c. isMat 6 6 (tau (t c)) \<and> isMat 6 6 (Pk (t c))) (children (t k))"
  shows "(\<forall>c P0. c \<in> set (children (t k)) \<and> isMat 6 6 P0 \<longrightarrow>
            calcP_child t (OB_G (t k)) c P0 =
            madd P0 (shiftConj (vsub (OB_G (t c)) (OB_G (t k))) (mmul (tau (t c)) (Pk (t c))))) \<and>
         Pk (fst (snd (calcP matInverse t k cerr)) k) = calcP_spec t k \<and>
         (list_all (\<lambda>c. phi (t c) = PhiMatrix (vsub (OB_G (t c)) (OB_G (t k)))) (children (t k))
            \<longrightarrow> Pk (fst (snd (calcP matInverse t k cerr)) k) = calcP_spec_phi t k)"
proof -
  have ch: "\<forall>c \<in> set (children (t k)). isMat 6 6 (tau (t c)) \<and> isMat 6 6 (Pk (t c))"
    using assms(3) by (simp add: list_all_iff)
  have "Pk (fst (snd (calcP matInverse t k cerr)) k) =
        fold (calcP_child t (OB_G (t k))) (children (t k)) (Mk (t k))"
    using assms(1) by (rule calcP_Pk)
  also have "\<dots> = calcP_spec t k"
    unfolding calcP_spec_def using assms(2) ch by (rule fold_calcP_child)
  finally show ?thesis using ch by (simp add: calcP_child_eq calcP_spec_phi_eq)
qed


theorem calcP_shift_conjugation_witness:
  "nodeClass (exTree 1) \<noteq> RBGroundBody \<and> isMat 6 6 (Mk (exTree 1)) \<and>
   list_all (\<lambda>c. isMat 6 6 (tau (exTree c)) \<and> isMat 6 6 (Pk (exTree c))) (children (exTree 1)) \<and>
   list_all (\<lambda>c. phi (exTree c) = PhiMatrix (vsub (OB_G (exTree c)) (OB_G (exTree 1))))
     (children (exTree 1)) \<and>
   2 \<in> set (children (exTree 1)) \<and> isMat 6 6 (diag6 2) \<and>
   calcP_child exTree (OB_G (exTree 1)) 2 (diag6 2) =
     madd (diag6 2) (shiftConj (vsub (OB_G (exTree 2)) (OB_G (exTree 1)))
                               (mmul (tau (exTree 2)) (Pk (exTree 2)))) \<and>
   Pk (fst (snd (calcP exInverse exTree 1 [])) 1) = calcP_spec exTree 1 \<and>
   Pk (fst (snd (calcP exInverse exTree 1 [])) 1) = calcP_spec_phi exTree 1 \<and>
   calcP_spec exTree 1 = [[5,0,0,0,0,0],[0,8,0,0,0,-3],[0,0,8,0,3,0],[0,0,0,5,0,0],[0,0,3,0,5,0],[0,-3,0,0,0,5]]"
proof -
  have h4: "list_all (\<lambda>c. phi (exTree c) = PhiMatrix (vsub (OB_G (exTree c)) (OB_G (exTree 1))))
     (children (exTree 1))"
    by (simp add: exTree_nodes exBody1_fields exBody2_fields vsub_def)
  have h1: "nodeClass (exTree 1) \<noteq> RBGroundBody" by (simp add: ex_simps)
  have h2: "isMat 6 6 (Mk (exTree 1))" by (simp add: ex_simps isMat_def diag6_def)
  have h3: "list_all (\<lambda>c. isMat 6 6 (tau (exTree c)) \<and> isMat 6 6 (Pk (exTree c))) (children (exTree 1))"
    by (simp add: ex_simps isMat_def diag6_def)
  note inst = calcP_shift_conjugation[of exTree 1 exInverse "[]", OF h1 h2 h3]
  have h5: "2 \<in> set (children (exTree 1))" by (simp add: exTree_nodes exBody1_fields)
  have h6: "isMat 6 6 (diag6 2)" by (simp add: isMat_def diag6_def)
  have b: "calcP_child exTree (OB_G (exTree 1)) 2 (diag6 2) =
     madd (diag6 2) (shiftConj (vsub (OB_G (exTree 2)) (OB_G (exTree 1)))
                               (mmul (tau (exTree 2)) (Pk (exTree 2))))"
    using inst h5 h6 by blast
  have c: "Pk (fst (snd (calcP exInverse exTree 1 [])) 1) = calcP_spec exTree 1"
    using inst by blast
  have c': "Pk (fst (snd (calcP exInverse exTree 1 [])) 1) = calcP_spec_phi exTree 1"
    using inst h4 by blast
  have v: "calcP_spec exTree 1 = [[5,0,0,0,0,0],[0,8,0,0,0,-3],[0,0,8,0,3,0],[0,0,0,5,0,0],[0,0,3,0,5,0],[0,-3,0,0,0,5]]"
    by (simp add: calcP_spec_def ex_simps msum_def shiftConj_def phiMat_def blockMat22_def blockMat21_def blockMat12_def crossMat_def
    ident33_def zero33_def mmul_def madd_def dot_def vadd_def vsub_def zeroMat66_eval diag6_def)
  show ?thesis using h1 h2 h3 h4 h5 h6 b c c' v by blast
qed


section \<open>Singular \<open>D\<close> in \<^verbatim>\<open>calcP\<close>\<close>

lemma calcP_unfold:
  assumes "nodeClass (t k) \<noteq> RBGroundBody"
  shows "calcP matInverse t k cerr =
    (let n = t k;
         P1 = fold (calcP_child t (OB_G n)) (children n) (Mk n);
         n1 = n\<lparr>Pk := P1\<rparr>
     in case calcD_G matInverse n1 P1 cerr of
          (Inl e, cerr1) \<Rightarrow> (Some e, t(k := n1), cerr1)
        | (Inr n2, cerr1) \<Rightarrow>
            (let tau1 = msub (identMat 6) (mmul (Gk n2) (Hk n2));
                 psiT1 = mmul (transpose tau1) (transpose (phiMat (phi n2)))
             in (None, t(k := n2\<lparr>tau := tau1, psiT := psiT1\<rparr>), cerr1)))"
  using assms by (cases "nodeClass (t k)") (simp_all add: calcP_def)

lemma not_invertible_zero11: "\<not> invertibleMat [[0]]"
proof
  assume "invertibleMat [[0]]"
  then obtain X where "mmul [[0]] X = identMat (length [[0 :: real]])"
    unfolding invertibleMat_def isInverseOf_def by blast
  hence "map (dot (replicate 1 0)) (transpose X) = [1]"
    by (simp add: mmul_def identMat_def)
  hence "\<exists>c. dot (replicate 1 0) c = 1" by (cases "transpose X") auto
  thus False by (simp only: dot_zero_left) simp
qed

text \<open>\<open>exInverse\<close> keeps the contract of \<^verbatim>\<open>MatrixTools::inverse\<close> at every 1x1 matrix.\<close>

lemma exInverse_contract: "inverseContract exInverse [[d]]"
  by (simp add: inverseContract_def exInverse_def not_invertible_zero11 isInverseOf_def
      mmul_def dot_def identMat_def)

lemma exTree1_D: "calcP_D exTree (Suc 0) = [[8]]"
proof -
  have "fold (calcP_child exTree (OB_G (exTree (Suc 0)))) (children (exTree (Suc 0))) (Mk (exTree (Suc 0))) =
        calcP_spec exTree (Suc 0)"
    unfolding calcP_spec_def
    by (intro fold_calcP_child) (simp_all add: exTree_nodes exBody1_fields exBody2_fields isMat_def diag6_def)
  also have "\<dots> = [[5,0,0,0,0,0],[0,8,0,0,0,-3],[0,0,8,0,3,0],[0,0,0,5,0,0],[0,0,3,0,5,0],[0,-3,0,0,0,5]]"
    by (simp add: calcP_spec_def ex_simps msum_def shiftConj_def phiMat_def blockMat22_def blockMat21_def blockMat12_def crossMat_def
    ident33_def zero33_def mmul_def madd_def dot_def vadd_def vsub_def zeroMat66_eval diag6_def)
  finally show ?thesis
    by (simp add: calcP_D_def orthoTransform_def exTree_nodes exBody1_fields mmul_def dot_def)
qed

lemma exTree2_D: "calcP_D exTree 2 = zero33"
  by (simp add: calcP_D_def orthoTransform_def exTree_nodes exBody2_fields mmul_def dot_def
      zeroMat66_eval diag6_def zero33_def)

text \<open>
  C4.  For a node that is not the ground, with \<^verbatim>\<open>MatrixTools::inverse\<close> behaving at
  \<open>D = H \<cdot> P \<cdot> H\<^sup>T\<close> as its contract says: when \<open>D\<close> has no inverse, \<^verbatim>\<open>calcP\<close> throws the
  exception of \<^verbatim>\<open>calcD_G\<close> after writing \<open>D\<close>, \<open>H\<close>, the level of the node and the number
  of its children to \<^verbatim>\<open>cerr\<close>, and leaves \<^verbatim>\<open>DI\<close>, \<^verbatim>\<open>G\<close>, \<^verbatim>\<open>tau\<close>, \<^verbatim>\<open>psiT\<close> as they were;
  when \<open>D\<close> has an inverse, nothing is thrown or written, \<^verbatim>\<open>DI\<close> is an inverse of \<open>D\<close>,
  \<open>G = P \<cdot> H\<^sup>T \<cdot> DI\<close>, \<open>tau = I - G \<cdot> H\<close> and \<open>psiT = tau\<^sup>T \<cdot> \<Phi>\<^sup>T\<close>.
\<close>

theorem calcP_singular_or_inverse:
  assumes "nodeClass (t k) \<noteq> RBGroundBody"
    and "inverseContract matInverse (calcP_D t k)"
  shows "case calcP matInverse t k cerr of (exc, t1, cerr1) \<Rightarrow>
     calcP_D t k = mmul (mmul (Hk (t1 k)) (Pk (t1 k))) (transpose (Hk (t1 k))) \<and>
     (\<not> invertibleMat (calcP_D t k) \<longrightarrow>
        exc = Some (Exception ''calcD_G: singular D matrix. Bad topology?'') \<and>
        cerr1 = cerr @ singularReport (t k) (calcP_D t k) \<and>
        DI (t1 k) = DI (t k) \<and> Gk (t1 k) = Gk (t k) \<and>
        tau (t1 k) = tau (t k) \<and> psiT (t1 k) = psiT (t k)) \<and>
     (invertibleMat (calcP_D t k) \<longrightarrow>
        exc = None \<and> cerr1 = cerr \<and>
        isInverseOf (calcP_D t k) (DI (t1 k)) \<and>
        Gk (t1 k) = mmul (mmul (Pk (t1 k)) (transpose (Hk (t1 k)))) (DI (t1 k)) \<and>
        tau (t1 k) = msub (identMat 6) (mmul (Gk (t1 k)) (Hk (t1 k))) \<and>
        psiT (t1 k) = mmul (transpose (tau (t1 k))) (transpose (phiMat (phi (t1 k)))))"
proof (cases "matInverse (calcP_D t k)")
  case (Inl e)
  hence ni: "\<not> invertibleMat (calcP_D t k)" using assms(2) by (simp add: inverseContract_def)
  have e: "e = SingularError" by (cases e) simp
  show ?thesis
    using Inl ni e unfolding calcP_unfold[of t k, OF assms(1)]
    by (simp add: calcD_G_def Let_def calcP_D_def singularReport_def orthoTransform_def)
next
  case (Inr X)
  hence inv: "isInverseOf (calcP_D t k) X" using assms(2) by (simp add: inverseContract_def)
  hence i: "invertibleMat (calcP_D t k)" unfolding invertibleMat_def by blast
  show ?thesis
    using Inr inv i unfolding calcP_unfold[of t k, OF assms(1)]
    by (simp add: calcD_G_def Let_def calcP_D_def orthoTransform_def)
qed


theorem calcP_singular_or_inverse_witness:
  "nodeClass (exTree 1) \<noteq> RBGroundBody \<and> inverseContract exInverse (calcP_D exTree 1) \<and>
   invertibleMat (calcP_D exTree 1) \<and>
   fst (calcP exInverse exTree 1 []) = None \<and>
   snd (snd (calcP exInverse exTree 1 [])) = [] \<and>
   DI (fst (snd (calcP exInverse exTree 1 [])) 1) = [[1 / 8]] \<and>
   nodeClass (exTree 2) \<noteq> RBGroundBody \<and> inverseContract exInverse (calcP_D exTree 2) \<and>
   \<not> invertibleMat (calcP_D exTree 2) \<and>
   fst (calcP exInverse exTree 2 []) = Some (Exception ''calcD_G: singular D matrix. Bad topology?'') \<and>
   snd (snd (calcP exInverse exTree 2 [])) = singularReport (exTree 2) zero33"
proof -
  have a1: "nodeClass (exTree 1) \<noteq> RBGroundBody" by (simp add: exTree_nodes exBody1_fields)
  have i1: "isInverseOf (calcP_D exTree 1) [[1 / 8]]"
    by (simp add: exTree1_D isInverseOf_def mmul_def dot_def identMat_def)
  hence a2: "inverseContract exInverse (calcP_D exTree 1)"
    by (simp add: inverseContract_def exInverse_def exTree1_D)
  have a3: "invertibleMat (calcP_D exTree 1)" using i1 unfolding invertibleMat_def by blast
  note c1 = calcP_singular_or_inverse[of exTree 1 exInverse "[]", OF a1 a2]
  have r1: "fst (calcP exInverse exTree 1 []) = None"
    "snd (snd (calcP exInverse exTree 1 [])) = []"
    using c1 a3 by (auto split: prod.splits)
  have d1: "DI (fst (snd (calcP exInverse exTree 1 [])) 1) = [[1 / 8]]"
    using calcP_unfold[of exTree "Suc 0" exInverse "[]"] a1 exTree1_D[unfolded calcP_D_def]
    by (simp add: Let_def calcD_G_def exInverse_def)
  have b1: "nodeClass (exTree 2) \<noteq> RBGroundBody" by (simp add: exTree_nodes exBody2_fields)
  have b3: "\<not> invertibleMat (calcP_D exTree 2)" by (simp add: exTree2_D not_invertible_zero33)
  hence b2: "inverseContract exInverse (calcP_D exTree 2)"
    by (simp add: inverseContract_def exInverse_def exTree2_D zero33_def)
  note c2 = calcP_singular_or_inverse[of exTree 2 exInverse "[]", OF b1 b2]
  have r2: "fst (calcP exInverse exTree 2 []) = Some (Exception ''calcD_G: singular D matrix. Bad topology?'')"
    "snd (snd (calcP exInverse exTree 2 [])) = singularReport (exTree 2) zero33"
    using c2 b3 by (auto split: prod.splits simp: exTree2_D)
  show ?thesis using a1 a2 a3 r1 d1 b1 b2 b3 r2 by blast
qed

section \<open>The residual pass \<^verbatim>\<open>calcZ\<close>\<close>

text \<open>
  C1.  For a node that is not the ground, with a 6x6 \<^verbatim>\<open>P\<close>, a 6-vector \<^verbatim>\<open>b\<close> and a
  6-vector \<open>f\<close> of spatial force, \<^verbatim>\<open>calcZ(f)\<close> leaves in the node
  \<open>z = P \<cdot> a + b - f + \<Sum>\<^sub>c \<Phi>\<^sub>c \<cdot> (z\<^sub>c + Gepsilon\<^sub>c)\<close> over its children \<open>c\<close> as they stand in
  the tree, then \<open>\<epsilon> = forceInternal - H \<cdot> z\<close> with the new \<open>z\<close>, \<open>\<nu> = DI \<cdot> \<epsilon>\<close> and
  \<open>Gepsilon = G \<cdot> \<epsilon>\<close>; it leaves \<^verbatim>\<open>forceInternal\<close>, \<open>H\<close>, \<open>DI\<close>, \<open>G\<close> and every other node
  as they were, so that the \<^verbatim>\<open>Gepsilon\<close> of a child whose \<^verbatim>\<open>calcZ\<close> has run is its
  \<open>G \<cdot> \<epsilon>\<close>.
\<close>

theorem calcZ_formulas:
  assumes "nodeClass (t k) \<noteq> RBGroundBody"
    and "length (Pk (t k)) = 6" and "length (bk (t k)) = 6" and "length f = 6"
  shows "zk (calcZ t k f k) = calcZ_spec t k f \<and>
         epsilon (calcZ t k f k) = vsub (forceInternal (t k)) (mv (Hk (t k)) (zk (calcZ t k f k))) \<and>
         nu (calcZ t k f k) = mv (DI (t k)) (epsilon (calcZ t k f k)) \<and>
         Gepsilon (calcZ t k f k) = mv (Gk (t k)) (epsilon (calcZ t k f k)) \<and>
         forceInternal (calcZ t k f k) = forceInternal (t k) \<and>
         Hk (calcZ t k f k) = Hk (t k) \<and> DI (calcZ t k f k) = DI (t k) \<and>
         Gk (calcZ t k f k) = Gk (t k) \<and>
         (\<forall>j. j \<noteq> k \<longrightarrow> calcZ t k f j = t j)"
proof -
  let ?z0 = "vsub (vadd (mv (Pk (t k)) (ak (t k))) (bk (t k))) f"
  let ?g = "\<lambda>c. phiMul (phi (t c)) (vadd (zk (t c)) (Gepsilon (t c)))"
  have "length ?z0 = 6" using assms(2-4) by (simp add: length_vsub length_vadd length_mv)
  hence z: "fold (\<lambda>c z. vadd z (?g c)) (children (t k)) ?z0 = calcZ_spec t k f"
    unfolding calcZ_spec_def by (intro fold_vadd) (simp_all add: length_phiMul)
  show ?thesis using assms(1) z
    by (cases "nodeClass (t k)") (simp_all add: calcZ_def Let_def)
qed

theorem calcZ_formulas_witness:
  "nodeClass (exTree 1) \<noteq> RBGroundBody \<and> length (Pk (exTree 1)) = 6 \<and> length (bk (exTree 1)) = 6 \<and>
   length [0, 0, 0, 0, 0, 1 :: real] = 6 \<and>
   zk (calcZ exTree 1 [0, 0, 0, 0, 0, 1] 1) = calcZ_spec exTree 1 [0, 0, 0, 0, 0, 1] \<and>
   calcZ_spec exTree 1 [0, 0, 0, 0, 0, 1] = [0, - 1, 3, 0, 2, 0] \<and>
   epsilon (calcZ exTree 1 [0, 0, 0, 0, 0, 1] 1) = [2] \<and>
   nu (calcZ exTree 1 [0, 0, 0, 0, 0, 1] 1) = [1] \<and>
   Gepsilon (calcZ exTree 1 [0, 0, 0, 0, 0, 1] 1) = [0, 0, 2, 0, 0, 0] \<and>
   (2 :: nat) \<noteq> 1 \<and> calcZ exTree 1 [0, 0, 0, 0, 0, 1] 2 = exTree 2"
proof -
  have h1: "nodeClass (exTree 1) \<noteq> RBGroundBody" by (simp add: exTree_nodes exBody1_fields)
  have h2: "length (Pk (exTree 1)) = 6" by (simp add: exTree_nodes exBody1_fields diag6_def)
  have h3: "length (bk (exTree 1)) = 6" by (simp add: exTree_nodes exBody1_fields)
  have h4: "length [0, 0, 0, 0, 0, 1 :: real] = 6" by simp
  note c = calcZ_formulas[of exTree 1 "[0, 0, 0, 0, 0, 1]", OF h1 h2 h3 h4]
  have v: "calcZ_spec exTree 1 [0, 0, 0, 0, 0, 1] = [0, - 1, 3, 0, 2, 0]"
    by (simp add: calcZ_spec_def exTree_nodes exBody1_fields exBody2_fields vsum_def zeroVec_eval
        diag6_def mv_def dot_def vadd_def vsub_def phiMul_def phiMat_def blockMat22_def
        blockMat21_def blockMat12_def crossMat_def ident33_def zero33_def)
  have e: "epsilon (calcZ exTree 1 [0, 0, 0, 0, 0, 1] 1) = [2]"
    using c v by (simp add: exTree_nodes exBody1_fields mv_def dot_def vsub_def)
  have n: "nu (calcZ exTree 1 [0, 0, 0, 0, 0, 1] 1) = [1]"
    using c e by (simp add: exTree_nodes exBody1_fields mv_def dot_def)
  have g: "Gepsilon (calcZ exTree 1 [0, 0, 0, 0, 0, 1] 1) = [0, 0, 2, 0, 0, 0]"
    using c e by (simp add: exTree_nodes exBody1_fields mv_def dot_def)
  have o: "(2 :: nat) \<noteq> 1" by simp
  have u: "calcZ exTree 1 [0, 0, 0, 0, 0, 1] 2 = exTree 2" using c o by blast
  show ?thesis using h1 h2 h3 h4 c v e n g o u by blast
qed



section \<open>The acceleration pass \<^verbatim>\<open>calcAccel\<close>\<close>

text \<open>
  No call writes the class or the spatial acceleration of a ground node: on the ground
  every method is empty, on another node it writes to that node alone, and \<^verbatim>\<open>addChild\<close>
  writes neither member.
\<close>

lemma setPos_ground: "nodeClass (t g) = RBGroundBody \<Longrightarrow> setPos t k posv g = t g"
  by (cases "nodeClass (t k)") (auto simp: setPos_def Let_def)

lemma setVel_ground: "nodeClass (t g) = RBGroundBody \<Longrightarrow> setVel t k velv g = t g"
  by (cases "nodeClass (t k)") (auto simp: setVel_def Let_def)

lemma setVelFromSVel_ground:
  "nodeClass (t g) = RBGroundBody \<Longrightarrow> setVelFromSVel t k v = Inr t1 \<Longrightarrow> t1 g = t g"
  by (cases "nodeClass (t k)") (auto simp: setVelFromSVel_def setVelFromSVel_Spec_def Let_def split: sum.splits)

lemma enforceConstraints_ground:
  "nodeClass (t g) = RBGroundBody \<Longrightarrow> fst (enforceConstraints t k posv velv) g = t g"
  by (auto simp: enforceConstraints_def Let_def split: prod.splits)

lemma calcP_ground:
  "nodeClass (t g) = RBGroundBody \<Longrightarrow> fst (snd (calcP matInverse t k cerr)) g = t g"
  by (cases "nodeClass (t k)") (auto simp: calcP_def Let_def split: prod.splits sum.splits)

lemma calcZ_ground: "nodeClass (t g) = RBGroundBody \<Longrightarrow> calcZ t k f g = t g"
  by (cases "nodeClass (t k)") (auto simp: calcZ_def Let_def)

lemma calcY_ground: "nodeClass (t g) = RBGroundBody \<Longrightarrow> calcY t k g = t g"
  by (cases "nodeClass (t k)") (auto simp: calcY_def Let_def)

lemma calcAccel_ground: "nodeClass (t g) = RBGroundBody \<Longrightarrow> calcAccel t k g = t g"
  by (cases "nodeClass (t k)") (auto simp: calcAccel_def Let_def)

lemma calcInternalForce_ground:
  "nodeClass (t g) = RBGroundBody \<Longrightarrow> calcInternalForce t k f g = t g"
  by (cases "nodeClass (t k)") (auto simp: calcInternalForce_def Let_def)

lemma addChild_ground:
  "nodeClass (addChild t p c f g) = nodeClass (t g)" "sAcc (addChild t p c f g) = sAcc (t g)"
  by (simp_all add: addChild_def Let_def)

lemma call_ground:
  assumes "nodeClass (t g) = RBGroundBody" and "call matInverse c t = Inr t1"
  shows "nodeClass (t1 g) = RBGroundBody \<and> sAcc (t1 g) = sAcc (t g)"
proof (cases c)
  case (AddChild p ch f)
  thus ?thesis using assms by (auto simp: addChild_ground)
next
  case (SetPos k v)
  thus ?thesis using assms setPos_ground[of t g k v] by auto
next
  case (SetVel k v)
  thus ?thesis using assms setVel_ground[of t g k v] by auto
next
  case (SetVelFromSVel k v)
  thus ?thesis using assms setVelFromSVel_ground[of t g k v t1] by auto
next
  case (EnforceConstraints k p v)
  thus ?thesis using assms enforceConstraints_ground[of t g k p v] by auto
next
  case (CalcP k)
  thus ?thesis using assms calcP_ground[of t g matInverse k "[]"] by auto
next
  case (CalcZ k f)
  thus ?thesis using assms calcZ_ground[of t g k f] by auto
next
  case (CalcY k)
  thus ?thesis using assms calcY_ground[of t g k] by auto
next
  case (CalcAccel k)
  thus ?thesis using assms calcAccel_ground[of t g k] by auto
next
  case (CalcInternalForce k f)
  thus ?thesis using assms calcInternalForce_ground[of t g k f] by auto
qed

lemma run_ground:
  "nodeClass (t g) = RBGroundBody \<Longrightarrow> run matInverse cs t = Inr t1 \<Longrightarrow>
   nodeClass (t1 g) = RBGroundBody \<and> sAcc (t1 g) = sAcc (t g)"
proof (induction cs arbitrary: t)
  case Nil
  thus ?case by simp
next
  case (Cons c cs)
  from Cons.prems(2) obtain t2 where c: "call matInverse c t = Inr t2"
    and r: "run matInverse cs t2 = Inr t1"
    by (auto split: sum.splits)
  have g2: "nodeClass (t2 g) = RBGroundBody \<and> sAcc (t2 g) = sAcc (t g)"
    using call_ground[OF Cons.prems(1) c] .
  have "nodeClass (t1 g) = RBGroundBody \<and> sAcc (t1 g) = sAcc (t2 g)"
    using Cons.IH[of t2] g2 r by blast
  thus ?case using g2 by simp
qed

lemma create_ground:
  "create base m0 f0 m jointFrame ThisIsGround False e nxt = Inr (n, nxt1) \<Longrightarrow>
   n = newRBGroundBody base m0"
  by (simp add: create_def)

lemma newRBGroundBody_sAcc:
  "nodeClass (newRBGroundBody (newRigidBodyNode rest) m0) = RBGroundBody"
  "sAcc (newRBGroundBody (newRigidBodyNode rest) m0) = zeroVec 6"
  by (simp_all add: newRBGroundBody_def newRigidBodyNode_def)

text \<open>
  C2.  For a node that is not the ground, \<^verbatim>\<open>calcAccel\<close> shifts the parent's spatial
  acceleration, \<open>\<alpha>\<^sub>p = \<Phi>\<^sup>T \<cdot> sAcc\<^sub>p\<^sub>a\<^sub>r\<^sub>e\<^sub>n\<^sub>t\<close>, and leaves \<open>ddTheta = \<nu> - G\<^sup>T \<cdot> \<alpha>\<^sub>p\<close> and
  \<open>sAcc = \<alpha>\<^sub>p + H\<^sup>T \<cdot> ddTheta + a\<close> in the node.  On the ground it changes nothing.  The
  ground's \<^verbatim>\<open>sAcc\<close> is zero: the node that \<^verbatim>\<open>create\<close> returns for \<^verbatim>\<open>ThisIsGround\<close> has the \<^verbatim>\<open>sAcc\<close>
  that the constructor of the base class gives it, zero, and after any calls of
  \<^verbatim>\<open>addChild\<close>, \<^verbatim>\<open>setPos\<close>, \<^verbatim>\<open>setVel\<close>, \<^verbatim>\<open>setVelFromSVel\<close>, \<^verbatim>\<open>enforceConstraints\<close>, \<^verbatim>\<open>calcP\<close>,
  \<^verbatim>\<open>calcZ\<close>, \<^verbatim>\<open>calcY\<close>, \<^verbatim>\<open>calcAccel\<close> and \<^verbatim>\<open>calcInternalForce\<close> on the nodes of the tree, in
  any order and on any nodes, it is the ground still and its \<^verbatim>\<open>sAcc\<close> is zero still.  A
  ball joint in quaternion mode gets \<open>ddq = \<onehalf> \<cdot> (M(dq) \<cdot> \<omega> + M(q) \<cdot> d\<omega>)\<close> besides, \<open>M\<close>
  being the 4x3 matrix \<open>ballM43\<close>, \<open>\<omega>\<close> the member \<^verbatim>\<open>dTheta\<close> and \<open>d\<omega>\<close> the new \<^verbatim>\<open>ddTheta\<close>
  (their first three components in the free joint).
\<close>

theorem calcAccel_formulas:
  "(nodeClass (t k) \<noteq> RBGroundBody \<longrightarrow>
      ddTheta (calcAccel t k k) =
        vsub (nu (t k)) (mv (transpose (Gk (t k))) (phiTMul (phi (t k)) (sAcc (t (parent (t k)))))) \<and>
      sAcc (calcAccel t k k) =
        vadd (vadd (phiTMul (phi (t k)) (sAcc (t (parent (t k)))))
                   (mv (transpose (Hk (t k))) (ddTheta (calcAccel t k k))))
             (ak (t k))) \<and>
   (nodeClass (t k) = RBGroundBody \<longrightarrow> calcAccel t k = t) \<and>
   (create (newRigidBodyNode rest) m0 f0 m jointFrame ThisIsGround False e nxt = Inr (t0 g, nxt1) \<and>
    run matInverse cs t0 = Inr t1 \<longrightarrow>
      nodeClass (t1 g) = RBGroundBody \<and> sAcc (t1 g) = zeroVec 6) \<and>
   (nodeClass (t k) = RBNodeRotate3 \<and> \<not> useEuler (ball (t k)) \<longrightarrow>
      ball_ddq (ball (calcAccel t k k)) =
        smul (1 / 2) (vadd (mv (ballM43 (ball_dq (ball (t k)))) (dTheta (t k)))
                           (mv (ballM43 (ball_q (ball (t k)))) (ddTheta (calcAccel t k k))))) \<and>
   (nodeClass (t k) = RBNodeTranslateRotate3 \<and> \<not> useEuler (ball (t k)) \<longrightarrow>
      ball_ddq (ball (calcAccel t k k)) =
        smul (1 / 2) (vadd (mv (ballM43 (ball_dq (ball (t k)))) (subVec (dTheta (t k)) 0 3))
                           (mv (ballM43 (ball_q (ball (t k))))
                               (subVec (ddTheta (calcAccel t k k)) 0 3))))"
proof -
  have gr: "create (newRigidBodyNode rest) m0 f0 m jointFrame ThisIsGround False e nxt = Inr (t0 g, nxt1) \<and>
    run matInverse cs t0 = Inr t1 \<longrightarrow>
      nodeClass (t1 g) = RBGroundBody \<and> sAcc (t1 g) = zeroVec 6"
  proof (intro impI, elim conjE)
    assume c: "create (newRigidBodyNode rest) m0 f0 m jointFrame ThisIsGround False e nxt = Inr (t0 g, nxt1)"
      and r: "run matInverse cs t0 = Inr t1"
    have n: "t0 g = newRBGroundBody (newRigidBodyNode rest) m0" using c by (rule create_ground)
    have g0: "nodeClass (t0 g) = RBGroundBody" "sAcc (t0 g) = zeroVec 6"
      unfolding n by (rule newRBGroundBody_sAcc)+
    show "nodeClass (t1 g) = RBGroundBody \<and> sAcc (t1 g) = zeroVec 6"
      using run_ground[OF g0(1) r] g0(2) by simp
  qed
  have rest: "(nodeClass (t k) \<noteq> RBGroundBody \<longrightarrow>
      ddTheta (calcAccel t k k) =
        vsub (nu (t k)) (mv (transpose (Gk (t k))) (phiTMul (phi (t k)) (sAcc (t (parent (t k)))))) \<and>
      sAcc (calcAccel t k k) =
        vadd (vadd (phiTMul (phi (t k)) (sAcc (t (parent (t k)))))
                   (mv (transpose (Hk (t k))) (ddTheta (calcAccel t k k))))
             (ak (t k))) \<and>
   (nodeClass (t k) = RBGroundBody \<longrightarrow> calcAccel t k = t) \<and>
   (nodeClass (t k) = RBNodeRotate3 \<and> \<not> useEuler (ball (t k)) \<longrightarrow>
      ball_ddq (ball (calcAccel t k k)) =
        smul (1 / 2) (vadd (mv (ballM43 (ball_dq (ball (t k)))) (dTheta (t k)))
                           (mv (ballM43 (ball_q (ball (t k)))) (ddTheta (calcAccel t k k))))) \<and>
   (nodeClass (t k) = RBNodeTranslateRotate3 \<and> \<not> useEuler (ball (t k)) \<longrightarrow>
      ball_ddq (ball (calcAccel t k k)) =
        smul (1 / 2) (vadd (mv (ballM43 (ball_dq (ball (t k)))) (subVec (dTheta (t k)) 0 3))
                           (mv (ballM43 (ball_q (ball (t k))))
                               (subVec (ddTheta (calcAccel t k k)) 0 3))))"
    by (cases "nodeClass (t k)")
       (simp_all add: calcAccel_def calcJointAccel_def calcBallAccel_def Let_def)
  show ?thesis using gr rest by blast
qed

theorem calcAccel_formulas_witness:
  "nodeClass (exTree 2) \<noteq> RBGroundBody \<and>
   nodeClass (exTree 2) = RBNodeRotate3 \<and> \<not> useEuler (ball (exTree 2)) \<and>
   phiTMul (phi (exTree 2)) (sAcc (exTree (parent (exTree 2)))) = [0, 0, 1, 0, 1, 0] \<and>
   ddTheta (calcAccel exTree 2 2) = [1, 2, 2] \<and>
   sAcc (calcAccel exTree 2 2) = [2, 2, 3, 0, 1, 0] \<and>
   ball_ddq (ball (calcAccel exTree 2 2)) = [- (1 / 4), 1 / 2, 1, 1] \<and>
   nodeClass (exTree 0) = RBGroundBody \<and> calcAccel exTree 0 = exTree \<and>
   create (newRigidBodyNode exampleBase) exMass exFrame exMass exFrame ThisIsGround False False 0 =
     Inr (exFresh 0, 0) \<and>
   run exInverse [AddChild 0 3 exFrame, SetVel 3 [0, 0, 0, 0, 0, 1, 0, 0, 0, 0, 0, 0], CalcAccel 0, CalcAccel 3] exFresh =
     Inr (calcAccel (calcAccel (setVel (addChild exFresh 0 3 exFrame) 3 [0, 0, 0, 0, 0, 1, 0, 0, 0, 0, 0, 0]) 0) 3) \<and>
   nodeClass (calcAccel (calcAccel (setVel (addChild exFresh 0 3 exFrame) 3 [0, 0, 0, 0, 0, 1, 0, 0, 0, 0, 0, 0]) 0) 3 0) = RBGroundBody \<and>
   sAcc (calcAccel (calcAccel (setVel (addChild exFresh 0 3 exFrame) 3 [0, 0, 0, 0, 0, 1, 0, 0, 0, 0, 0, 0]) 0) 3 0) = zeroVec 6 \<and>
   nodeClass (exTree 3) = RBNodeTranslateRotate3 \<and> \<not> useEuler (ball (exTree 3)) \<and>
   ddTheta (calcAccel exTree 3 3) = [1, 2, 3, 4, 5, 6] \<and>
   sAcc (calcAccel exTree 3 3) = [1, 2, 3, 5, 5, 6] \<and>
   ball_ddq (ball (calcAccel exTree 3 3)) = [0, 1 / 2, 1, 3 / 2]"
proof -
  let ?v = "[0, 0, 0, 0, 0, 1, 0, 0, 0, 0, 0, 0] :: vec"
  let ?cs = "[AddChild 0 3 exFrame, SetVel 3 ?v, CalcAccel 0, CalcAccel 3]"
  let ?t1 = "calcAccel (calcAccel (setVel (addChild exFresh 0 3 exFrame) 3 ?v) 0) 3"
  note c2 = calcAccel_formulas[of exTree 2]
  note c3 = calcAccel_formulas[of exTree 3]
  have k1: "nodeClass (exTree 3) \<noteq> RBGroundBody" "nodeClass (exTree 3) = RBNodeTranslateRotate3"
    "\<not> useEuler (ball (exTree 3))"
    by (simp_all add: exTree_nodes exBody3_fields)
  have ka: "phiTMul (phi (exTree 3)) (sAcc (exTree (parent (exTree 3)))) = [0, 0, 0, 0, 0, 0]"
    by (simp add: exTree_nodes exBody3_fields exGround_fields zeroVec_eval phiTMul_def phiMat_def
        blockMat22_def blockMat21_def blockMat12_def crossMat_def ident33_def zero33_def mv_def
        dot_def)
  have kd: "ddTheta (calcAccel exTree 3 3) = [1, 2, 3, 4, 5, 6]"
    using c3 k1 ka by (simp add: exTree_nodes exBody3_fields diag6_def mv_def dot_def vsub_def)
  have ks: "sAcc (calcAccel exTree 3 3) = [1, 2, 3, 5, 5, 6]"
    using c3 k1 ka kd by (simp add: exTree_nodes exBody3_fields diag6_def mv_def dot_def vadd_def)
  have kq: "ball_ddq (ball (calcAccel exTree 3 3)) = [0, 1 / 2, 1, 3 / 2]"
    using c3 k1 kd
    by (simp add: exTree_nodes exBody3_fields subVec_def ballM43_def mv_def dot_def vadd_def
        smul_def)
  note c0 = calcAccel_formulas[of exTree 0]
  have h1: "nodeClass (exTree 2) \<noteq> RBGroundBody" "nodeClass (exTree 2) = RBNodeRotate3"
    "\<not> useEuler (ball (exTree 2))"
    by (simp_all add: exTree_nodes exBody2_fields)
  have a: "phiTMul (phi (exTree 2)) (sAcc (exTree (parent (exTree 2)))) = [0, 0, 1, 0, 1, 0]"
    by (simp add: exTree_nodes exBody1_fields exBody2_fields phiTMul_def phiMat_def
        blockMat22_def blockMat21_def blockMat12_def crossMat_def ident33_def zero33_def mv_def
        dot_def)
  have d: "ddTheta (calcAccel exTree 2 2) = [1, 2, 2]"
    using c2 h1 a by (simp add: exTree_nodes exBody2_fields mv_def dot_def vsub_def)
  have s: "sAcc (calcAccel exTree 2 2) = [2, 2, 3, 0, 1, 0]"
    using c2 h1 a d by (simp add: exTree_nodes exBody2_fields mv_def dot_def vadd_def)
  have q: "ball_ddq (ball (calcAccel exTree 2 2)) = [- (1 / 4), 1 / 2, 1, 1]"
    using c2 h1 d
    by (simp add: exTree_nodes exBody2_fields ballM43_def mv_def dot_def vadd_def smul_def)
  have g: "nodeClass (exTree 0) = RBGroundBody"
    by (simp add: exTree_nodes exGround_fields)
  have g1: "calcAccel exTree 0 = exTree"
    using c0 g by simp
  have cr: "create (newRigidBodyNode exampleBase) exMass exFrame exMass exFrame ThisIsGround False False 0 =
     Inr (exFresh 0, 0)"
    by (simp add: create_def exFresh_def)
  have rn: "run exInverse ?cs exFresh = Inr ?t1"
    by simp
  have gz: "nodeClass (?t1 0) = RBGroundBody \<and> sAcc (?t1 0) = zeroVec 6"
    using calcAccel_formulas[of exTree 0 exampleBase exMass exFrame exMass exFrame False 0 exFresh 0 0
        exInverse ?cs ?t1] cr rn by blast
  show ?thesis using h1 a d s q g g1 cr rn gz k1 kd ks kq by blast
qed


section \<open>The quaternion of a ball joint\<close>

text \<open>
  Rounding to the nearest double, evaluated: \<open>round64 x\<close> when the power of two that
  scales \<open>x\<close> to 53 bits is given, and the rounded square root from the two squares that
  enclose its argument.
\<close>

lemma round64_eval:
  assumes "2 ^ 52 \<le> \<bar>x\<bar> * 2 ^ n" and "\<bar>x\<bar> * 2 ^ n < 2 ^ 53"
  shows "round64 x = of_int (rne (x * 2 ^ n)) / 2 ^ n"
proof -
  have x0: "x \<noteq> 0" using assms(1) by auto
  hence ax: "0 < \<bar>x\<bar>" by simp
  have p: "(2::real) powr (52 - real n) = 2 ^ 52 / 2 ^ n"
    by (simp add: powr_diff powr_realpow)
  have lo: "2 powr (52 - real n) \<le> \<bar>x\<bar>"
    unfolding p using assms(1) by (simp add: field_simps)
  have p1: "(2::real) powr (53 - real n) = 2 ^ 53 / 2 ^ n"
    by (simp add: powr_diff powr_realpow)
  have hi: "\<bar>x\<bar> < 2 powr (53 - real n)"
    unfolding p1 using assms(2) by (simp add: field_simps)
  have l1: "52 - real n \<le> log 2 \<bar>x\<bar>" using lo ax by (simp add: le_log_iff)
  have l2: "log 2 \<bar>x\<bar> < 53 - real n" using hi ax by (simp add: log_less_iff)
  have e: "\<lfloor>log 2 \<bar>x\<bar>\<rfloor> = 52 - int n"
    using l1 l2 by (simp add: floor_eq_iff)
  have u: "(2::real) powr (- real n) = 1 / 2 ^ n"
    by (simp add: powr_minus powr_realpow field_simps)
  show ?thesis using x0 by (simp add: round64_def e u Let_def)
qed

lemma rne_near: "\<bar>x - of_int m\<bar> < 1 / 2 \<Longrightarrow> rne x = m"
proof -
  assume a: "\<bar>x - of_int m\<bar> < 1 / 2"
  show ?thesis
  proof (cases "of_int m \<le> x")
    case True
    hence "\<lfloor>x\<rfloor> = m" using a by (simp add: floor_eq_iff abs_less_iff)
    thus ?thesis using a True by (simp add: rne_def Let_def abs_less_iff)
  next
    case False
    hence "\<lfloor>x\<rfloor> = m - 1" using a by (simp add: floor_eq_iff abs_less_iff)
    thus ?thesis using a False by (simp add: rne_def Let_def abs_less_iff)
  qed
qed

lemma rne_sqrt:
  assumes "1 \<le> m" and "(of_int m - 1 / 2)\<^sup>2 < y" and "y < (of_int m + 1 / 2)\<^sup>2"
  shows "rne (sqrt y) = m"
proof -
  have m: "0 \<le> real_of_int m - 1 / 2" using assms(1) by simp
  have "sqrt ((of_int m - 1 / 2)\<^sup>2) < sqrt y" using assms(2) by (simp only: real_sqrt_less_iff)
  hence lo: "of_int m - 1 / 2 < sqrt y" using m by simp
  have "sqrt y < sqrt ((of_int m + 1 / 2)\<^sup>2)" using assms(3) by (simp only: real_sqrt_less_iff)
  hence hi: "sqrt y < of_int m + 1 / 2" using m by simp
  have "\<bar>sqrt y - of_int m\<bar> < 1 / 2" using lo hi by linarith
  thus ?thesis by (rule rne_near)
qed

lemma sqrt_scale: "0 \<le> c \<Longrightarrow> sqrt y * c = sqrt (y * c\<^sup>2)"
  by (simp add: real_sqrt_mult)

lemma dsqrt_eval:
  assumes "1 \<le> m" and "(of_int m - 1 / 2)\<^sup>2 < y * (2 ^ n)\<^sup>2"
    and "y * (2 ^ n)\<^sup>2 < (of_int m + 1 / 2)\<^sup>2"
    and "(2 ^ 52)\<^sup>2 \<le> y * (2 ^ n)\<^sup>2" and "y * (2 ^ n)\<^sup>2 < (2 ^ 53)\<^sup>2"
  shows "dsqrt y = of_int m / 2 ^ n"
proof -
  have s: "sqrt y * 2 ^ n = sqrt (y * (2 ^ n)\<^sup>2)" by (rule sqrt_scale) simp
  have r: "rne (sqrt (y * (2 ^ n)\<^sup>2)) = m" using assms(1,2,3) by (rule rne_sqrt)
  have "sqrt ((2 ^ 52)\<^sup>2) \<le> sqrt (y * (2 ^ n)\<^sup>2)" using assms(4) by (simp only: real_sqrt_le_iff)
  hence lo: "2 ^ 52 \<le> sqrt (y * (2 ^ n)\<^sup>2)" by simp
  have "sqrt (y * (2 ^ n)\<^sup>2) < sqrt ((2 ^ 53)\<^sup>2)" using assms(5) by (simp only: real_sqrt_less_iff)
  hence hi: "sqrt (y * (2 ^ n)\<^sup>2) < 2 ^ 53" by simp
  have p52: "(0::real) < 2 ^ 52" by simp
  have "0 < sqrt y * 2 ^ n" unfolding s using lo p52 by linarith
  hence nn: "0 \<le> sqrt y" by (simp add: zero_less_mult_iff)
  have b: "2 ^ 52 \<le> \<bar>sqrt y\<bar> * 2 ^ n" "\<bar>sqrt y\<bar> * 2 ^ n < 2 ^ 53"
    using lo hi s nn by simp_all
  show ?thesis unfolding dsqrt_def round64_eval[OF b] s r ..
qed

text \<open>
  C5.  For a ball in quaternion mode and position and velocity vectors that hold its
  slices at \<open>offset\<close>, the quaternion slice not being zero, \<^verbatim>\<open>enforceBallConstraints\<close>
  writes back \<open>q / |q|\<close> and \<open>dq - (q' \<cdot> dq) q'\<close> with \<open>q'\<close> the new quaternion, and the
  members \<^verbatim>\<open>q\<close> and \<^verbatim>\<open>dq\<close> hold the new slices.  In exact arithmetic \<open>|q| = 1\<close> and
  \<open>q \<cdot> dq = 0\<close> hold afterwards; in the arithmetic of doubles they hold up to rounding,
  which no absolute tolerance bounds for every input (see below).  From
  \<open>q = (2, 0, 0, 0)\<close> and \<open>dq = (0.1, 0.1, 0.1, 0.1)\<close> it makes \<open>(1, 0, 0, 0)\<close> and
  \<open>(0, 0.1, 0.1, 0.1)\<close>, in exact arithmetic and, \<open>0.1\<close> being the double nearest to it, in
  doubles too.  \<^verbatim>\<open>enforceConstraints\<close> of a node with a ball returns what the ball does
  at the state offset of the node.
\<close>

theorem enforceBallConstraints_unit_tangent:
  assumes "\<not> useEuler bj"
    and "offset + 4 \<le> length posv" and "offset + 4 \<le> length velv"
    and "subVec posv offset 4 \<noteq> zeroVec 4"
  shows "(case enforceBallConstraints bj offset posv velv of (bj1, posv1, velv1) \<Rightarrow>
           subVec posv1 offset 4 = vdiv (subVec posv offset 4) (vnorm (subVec posv offset 4)) \<and>
           subVec velv1 offset 4 =
             vsub (subVec velv offset 4)
                  (smul (dot (subVec posv1 offset 4) (subVec velv offset 4)) (subVec posv1 offset 4)) \<and>
           vnorm (subVec posv1 offset 4) = 1 \<and>
           dot (subVec posv1 offset 4) (subVec velv1 offset 4) = 0 \<and>
           ball_q bj1 = subVec posv1 offset 4 \<and> ball_dq bj1 = subVec velv1 offset 4) \<and>
         enforceBallConstraints bj 0 [2, 0, 0, 0] [1 / 10, 1 / 10, 1 / 10, 1 / 10] =
           (bj\<lparr>ball_q := [1, 0, 0, 0], ball_dq := [0, 1 / 10, 1 / 10, 1 / 10]\<rparr>,
            [1, 0, 0, 0], [0, 1 / 10, 1 / 10, 1 / 10]) \<and>
         enforceBallConstraints64 bj 0 [2, 0, 0, 0]
             [round64 (1 / 10), round64 (1 / 10), round64 (1 / 10), round64 (1 / 10)] =
           (bj\<lparr>ball_q := [1, 0, 0, 0],
               ball_dq := [0, round64 (1 / 10), round64 (1 / 10), round64 (1 / 10)]\<rparr>,
            [1, 0, 0, 0], [0, round64 (1 / 10), round64 (1 / 10), round64 (1 / 10)]) \<and>
         ((nodeClass (t k) = RBNodeRotate3 \<or> nodeClass (t k) = RBNodeTranslateRotate3) \<and>
          ball (t k) = bj \<and> stateOffset (t k) = offset \<longrightarrow>
            snd (enforceConstraints t k posv velv) = snd (enforceBallConstraints bj offset posv velv))"
proof -
  let ?q0 = "subVec posv offset 4"
  let ?dq0 = "subVec velv offset 4"
  let ?q1 = "vdiv ?q0 (vnorm ?q0)"
  let ?dq1 = "vsub ?dq0 (smul (dot ?q1 ?dq0) ?q1)"
  have lq: "length ?q0 = 4" and ld: "length ?dq0 = 4"
    using assms(2,3) by (simp_all add: length_subVec)
  have lq1: "length ?q1 = 4" using lq by (simp add: length_vdiv)
  have ld1: "length ?dq1 = 4" using lq1 ld by (simp add: vsub_def smul_def)
  have n1: "vnorm ?q1 = 1" using lq assms(4) by (rule vnorm_vdiv_unit)
  have t1: "dot ?q1 ?dq1 = 0" using lq1 ld n1 by (rule dot_projected_zero)
  have p: "subVec (subVecSet posv offset 4 ?q1) offset 4 = ?q1"
    using assms(2) lq1 by (rule subVec_subVecSet)
  have v: "subVec (subVecSet velv offset 4 ?dq1) offset 4 = ?dq1"
    using assms(3) ld1 by (rule subVec_subVecSet)
  have ex: "enforceBallConstraints bj 0 [2, 0, 0, 0] [1 / 10, 1 / 10, 1 / 10, 1 / 10] =
           (bj\<lparr>ball_q := [1, 0, 0, 0], ball_dq := [0, 1 / 10, 1 / 10, 1 / 10]\<rparr>,
            [1, 0, 0, 0], [0, 1 / 10, 1 / 10, 1 / 10])"
    using assms(1)
    by (simp add: enforceBallConstraints_def subVec_def subVecSet_def vdiv_def vnorm_def dot_def
        vsub_def smul_def Let_def)
  have tenth: "round64 (1 / 10) = 3602879701896397 / 36028797018963968"
    by (simp add: round64_eval[where n = 56] rne_def)
  have s1: "dmul 2 2 = 4"
    by (simp add: dmul_def round64_eval[where n = 50] rne_def)
  have s2: "dadd 0 4 = 4"
    by (simp add: dadd_def round64_eval[where n = 50] rne_def)
  have s3: "dmul 0 0 = 0"
    by (simp add: dmul_def round64_def)
  have s4: "dadd 4 0 = 4"
    by (simp add: dadd_def round64_eval[where n = 50] rne_def)
  have s5: "dsqrt 4 = 2"
    using dsqrt_eval[of 4503599627370496 "4" 51] by (simp add: power2_eq_square)
  have s6: "ddiv 2 2 = 1"
    by (simp add: ddiv_def round64_eval[where n = 52] rne_def)
  have s7: "ddiv 0 2 = 0"
    by (simp add: ddiv_def round64_def)
  have s8: "dmul 1 (3602879701896397 / 36028797018963968) = 3602879701896397 / 36028797018963968"
    by (simp add: dmul_def round64_eval[where n = 56] rne_def)
  have s9: "dadd 0 (3602879701896397 / 36028797018963968) = 3602879701896397 / 36028797018963968"
    by (simp add: dadd_def round64_eval[where n = 56] rne_def)
  have s10: "dmul 0 (3602879701896397 / 36028797018963968) = 0"
    by (simp add: dmul_def round64_def)
  have s11: "dadd (3602879701896397 / 36028797018963968) 0 = 3602879701896397 / 36028797018963968"
    by (simp add: dadd_def round64_eval[where n = 56] rne_def)
  have s12: "dmul (3602879701896397 / 36028797018963968) 1 = 3602879701896397 / 36028797018963968"
    by (simp add: dmul_def round64_eval[where n = 56] rne_def)
  have s13: "dsub (3602879701896397 / 36028797018963968) (3602879701896397 / 36028797018963968) = 0"
    by (simp add: dsub_def round64_def)
  have s14: "dmul (3602879701896397 / 36028797018963968) 0 = 0"
    by (simp add: dmul_def round64_def)
  have s15: "dsub (3602879701896397 / 36028797018963968) 0 = 3602879701896397 / 36028797018963968"
    by (simp add: dsub_def round64_eval[where n = 56] rne_def)
  have ex64: "enforceBallConstraints64 bj 0 [2, 0, 0, 0]
             [round64 (1 / 10), round64 (1 / 10), round64 (1 / 10), round64 (1 / 10)] =
           (bj\<lparr>ball_q := [1, 0, 0, 0],
               ball_dq := [0, round64 (1 / 10), round64 (1 / 10), round64 (1 / 10)]\<rparr>,
            [1, 0, 0, 0], [0, round64 (1 / 10), round64 (1 / 10), round64 (1 / 10)])"
    unfolding tenth using assms(1)
    by (simp add: enforceBallConstraints64_def norm64_def dot64_def subVec_def subVecSet_def Let_def
        s1 s2 s3 s4 s5 s6 s7 s8 s9 s10 s11 s12 s13 s14 s15)
  have tr: "(nodeClass (t k) = RBNodeRotate3 \<or> nodeClass (t k) = RBNodeTranslateRotate3) \<and>
          ball (t k) = bj \<and> stateOffset (t k) = offset \<longrightarrow>
            snd (enforceConstraints t k posv velv) = snd (enforceBallConstraints bj offset posv velv)"
    by (auto simp: enforceConstraints_def Let_def split: prod.splits)
  have main: "(case enforceBallConstraints bj offset posv velv of (bj1, posv1, velv1) \<Rightarrow>
           subVec posv1 offset 4 = ?q1 \<and>
           subVec velv1 offset 4 =
             vsub ?dq0 (smul (dot (subVec posv1 offset 4) ?dq0) (subVec posv1 offset 4)) \<and>
           vnorm (subVec posv1 offset 4) = 1 \<and>
           dot (subVec posv1 offset 4) (subVec velv1 offset 4) = 0 \<and>
           ball_q bj1 = subVec posv1 offset 4 \<and> ball_dq bj1 = subVec velv1 offset 4)"
    using assms(1) n1 t1 by (simp add: enforceBallConstraints_def Let_def p v)
  show ?thesis using main ex ex64 tr by blast
qed


theorem enforceBallConstraints_unit_tangent_witness:
  "\<not> useEuler (ball (exTree 2)) \<and>
   stateOffset (exTree 2) + 4 \<le> length [9, 3, 0, 4, 0 :: real] \<and>
   stateOffset (exTree 2) + 4 \<le> length [0, 1, 1, 1, 1 :: real] \<and>
   subVec [9, 3, 0, 4, 0] (stateOffset (exTree 2)) 4 \<noteq> zeroVec 4 \<and>
   nodeClass (exTree 2) = RBNodeRotate3 \<and>
   snd (enforceConstraints exTree 2 [9, 3, 0, 4, 0] [0, 1, 1, 1, 1]) =
     ([9, 3 / 5, 0, 4 / 5, 0], [0, 4 / 25, 1, - (3 / 25), 1]) \<and>
   vnorm [3 / 5, 0, 4 / 5, 0] = 1 \<and>
   dot [3 / 5, 0, 4 / 5, 0] [4 / 25, 1, - (3 / 25), 1] = 0"
proof -
  let ?bj = "ball (exTree 2)"
  let ?off = "stateOffset (exTree 2)"
  have off: "?off = Suc 0" by (simp add: exTree_nodes exBody2_ball)
  have h1: "\<not> useEuler ?bj" by (simp add: exTree_nodes exBody2_fields)
  have h2: "?off + 4 \<le> length [9, 3, 0, 4, 0 :: real]" by (simp add: off)
  have h3: "?off + 4 \<le> length [0, 1, 1, 1, 1 :: real]" by (simp add: off)
  have h4: "subVec [9, 3, 0, 4, 0] ?off 4 \<noteq> zeroVec 4"
    by (simp add: off subVec_def zeroVec_eval)
  have h5: "nodeClass (exTree 2) = RBNodeRotate3" by (simp add: exTree_nodes exBody2_fields)
  have s25: "sqrt 25 = 5" using real_sqrt_abs[of 5] by simp
  have r: "snd (enforceBallConstraints ?bj ?off [9, 3, 0, 4, 0] [0, 1, 1, 1, 1]) =
     ([9, 3 / 5, 0, 4 / 5, 0], [0, 4 / 25, 1, - (3 / 25), 1])"
    using h1
    by (simp add: off enforceBallConstraints_def Let_def subVec_def subVecSet_def vdiv_def
        vnorm_def dot_def vsub_def smul_def s25)
  have sv: "subVec [9, 3 / 5, 0, 4 / 5, 0] ?off 4 = [3 / 5, 0, 4 / 5, 0]"
    "subVec [0, 4 / 25, 1, - (3 / 25), 1] ?off 4 = [4 / 25, 1, - (3 / 25), 1]"
    by (simp_all add: off subVec_def)
  obtain b1 p1 v1 where e: "enforceBallConstraints ?bj ?off [9, 3, 0, 4, 0] [0, 1, 1, 1, 1] =
      (b1, p1, v1)"
    by (cases "enforceBallConstraints ?bj ?off [9, 3, 0, 4, 0] [0, 1, 1, 1, 1]")
  hence pv: "p1 = [9, 3 / 5, 0, 4 / 5, 0]" "v1 = [0, 4 / 25, 1, - (3 / 25), 1]"
    using r by simp_all
  note c = enforceBallConstraints_unit_tangent[of ?bj ?off "[9, 3, 0, 4, 0]"
      "[0, 1, 1, 1, 1]" exTree 2, OF h1 h2 h3 h4, unfolded e prod.case]
  have "vnorm (subVec p1 ?off 4) = 1 \<and> dot (subVec p1 ?off 4) (subVec v1 ?off 4) = 0"
    using c by blast
  hence u: "vnorm [3 / 5, 0, 4 / 5, 0] = 1 \<and>
            dot [3 / 5, 0, 4 / 5, 0] [4 / 25, 1, - (3 / 25), 1] = 0"
    unfolding pv sv .
  have "snd (enforceConstraints exTree 2 [9, 3, 0, 4, 0] [0, 1, 1, 1, 1]) = snd (b1, p1, v1)"
    using c h5 by blast
  hence t: "snd (enforceConstraints exTree 2 [9, 3, 0, 4, 0] [0, 1, 1, 1, 1]) =
     ([9, 3 / 5, 0, 4 / 5, 0], [0, 4 / 25, 1, - (3 / 25), 1])"
    unfolding pv by simp
  show ?thesis using h1 h2 h3 h4 h5 t u by blast
qed

text \<open>
  In doubles the tolerance \<open>10\<^bsup>-12\<^esup>\<close> does not hold for every input.  The vectors
  \<open>q = (1, 2, 3, 4)\<close> and \<open>dq = (10000, -20000, 30000, 50000)\<close> are doubles; the norm of \<open>q\<close>
  is the rounded square root of 30, and the slices that \<^verbatim>\<open>enforceBallConstraints\<close> writes
  back, about \<open>(0.1826, 0.3651, 0.5477, 0.7303)\<close> and \<open>(1333.33, -37333.33, 4000.00,
  15333.33)\<close>, have the dot product \<open>13978097600001859 / 2\<^bsup>90\<^esup>\<close>, about \<open>1.13 \<cdot> 10\<^bsup>-11\<^esup>\<close>;
  computed in doubles, the dot product is \<open>3 / 2\<^bsup>38\<^esup>\<close>, about \<open>1.09 \<cdot> 10\<^bsup>-11\<^esup>\<close>.
\<close>

theorem enforceBallConstraints64_tolerance_counterexample:
  "map round64 [1, 2, 3, 4] = [1, 2, 3, 4] \<and>
   map round64 [10000, - 20000, 30000, 50000] = [10000, - 20000, 30000, 50000] \<and>
   (case enforceBallConstraints64 exQuatBall 0 [1, 2, 3, 4] [10000, - 20000, 30000, 50000] of
      (bj1, posv1, velv1) \<Rightarrow>
        posv1 =
          [822241035294227 / 4503599627370496, 822241035294227 / 2251799813685248,
           2466723105882681 / 4503599627370496, 822241035294227 / 1125899906842624] \<and>
        velv1 =
          [183251937962667 / 137438953472, - (2565527131477333 / 68719476736),
           1099511627776001 / 274877906944, 526849321642667 / 34359738368] \<and>
        ball_q bj1 = posv1 \<and> ball_dq bj1 = velv1 \<and>
        dot posv1 velv1 = 13978097600001859 / 2 ^ 90 \<and>
        \<not> \<bar>dot posv1 velv1\<bar> \<le> 1 / 10 ^ 12 \<and>
        dot64 posv1 velv1 = 3 / 2 ^ 38 \<and>
        \<not> \<bar>dot64 posv1 velv1\<bar> \<le> 1 / 10 ^ 12)"
proof -
  let ?Q = "[822241035294227 / 4503599627370496, 822241035294227 / 2251799813685248,
        2466723105882681 / 4503599627370496, 822241035294227 / 1125899906842624] :: vec"
  let ?D = "[183251937962667 / 137438953472, - (2565527131477333 / 68719476736),
        1099511627776001 / 274877906944, 526849321642667 / 34359738368] :: vec"
  have i: "map round64 [1, 2, 3, 4] = [1, 2, 3, 4]"
    "map round64 [10000, - 20000, 30000, 50000] = [10000, - 20000, 30000, 50000]"
    by (simp_all add: round64_eval[where n = 52] round64_eval[where n = 51] round64_eval[where n = 50]
        round64_eval[where n = 39] round64_eval[where n = 38] round64_eval[where n = 37] rne_def)
  have s1: "dmul 1 1 = 1"
    by (simp add: dmul_def round64_eval[where n = 52] rne_def)
  have s2: "dadd 0 1 = 1"
    by (simp add: dadd_def round64_eval[where n = 52] rne_def)
  have s3: "dmul 2 2 = 4"
    by (simp add: dmul_def round64_eval[where n = 50] rne_def)
  have s4: "dadd 1 4 = 5"
    by (simp add: dadd_def round64_eval[where n = 50] rne_def)
  have s5: "dmul 3 3 = 9"
    by (simp add: dmul_def round64_eval[where n = 49] rne_def)
  have s6: "dadd 5 9 = 14"
    by (simp add: dadd_def round64_eval[where n = 49] rne_def)
  have s7: "dmul 4 4 = 16"
    by (simp add: dmul_def round64_eval[where n = 48] rne_def)
  have s8: "dadd 14 16 = 30"
    by (simp add: dadd_def round64_eval[where n = 48] rne_def)
  have s9: "dsqrt 30 = 6166807764706703 / 1125899906842624"
    using dsqrt_eval[of 6166807764706703 "30" 50] by (simp add: power2_eq_square)
  have s10: "ddiv 1 (6166807764706703 / 1125899906842624) = 822241035294227 / 4503599627370496"
    by (simp add: ddiv_def round64_eval[where n = 55] rne_def)
  have s11: "ddiv 2 (6166807764706703 / 1125899906842624) = 822241035294227 / 2251799813685248"
    by (simp add: ddiv_def round64_eval[where n = 54] rne_def)
  have s12: "ddiv 3 (6166807764706703 / 1125899906842624) = 2466723105882681 / 4503599627370496"
    by (simp add: ddiv_def round64_eval[where n = 53] rne_def)
  have s13: "ddiv 4 (6166807764706703 / 1125899906842624) = 822241035294227 / 1125899906842624"
    by (simp add: ddiv_def round64_eval[where n = 53] rne_def)
  have s14: "dmul (822241035294227 / 4503599627370496) 10000 = 4014848805147593 / 2199023255552"
    by (simp add: dmul_def round64_eval[where n = 42] rne_def)
  have s15: "dadd 0 (4014848805147593 / 2199023255552) = 4014848805147593 / 2199023255552"
    by (simp add: dadd_def round64_eval[where n = 42] rne_def)
  have s16: "dmul (822241035294227 / 2251799813685248) (- 20000) = - (4014848805147593 / 549755813888)"
    by (simp add: dmul_def round64_eval[where n = 40] rne_def)
  have s17: "dadd (4014848805147593 / 2199023255552) (- (4014848805147593 / 549755813888)) = - (3011136603860695 / 549755813888)"
    by (simp add: dadd_def round64_eval[where n = 40] rne_def)
  have s18: "dmul (2466723105882681 / 4503599627370496) 30000 = 2258352452895521 / 137438953472"
    by (simp add: dmul_def round64_eval[where n = 38] rne_def)
  have s19: "dadd (- (3011136603860695 / 549755813888)) (2258352452895521 / 137438953472) = 6022273207721389 / 549755813888"
    by (simp add: dadd_def round64_eval[where n = 39] rne_def)
  have s20: "dmul (822241035294227 / 1125899906842624) 50000 = 5018561006434491 / 137438953472"
    by (simp add: dmul_def round64_eval[where n = 37] rne_def)
  have s21: "dadd (6022273207721389 / 549755813888) (5018561006434491 / 137438953472) = 3262064654182419 / 68719476736"
    by (simp add: dadd_def round64_eval[where n = 37] rne_def)
  have s22: "dmul (3262064654182419 / 68719476736) (822241035294227 / 4503599627370496) = 1191137596757333 / 137438953472"
    by (simp add: dmul_def round64_eval[where n = 39] rne_def)
  have s23: "dsub 10000 (1191137596757333 / 137438953472) = 183251937962667 / 137438953472"
    by (simp add: dsub_def round64_eval[where n = 42] rne_def)
  have s24: "dmul (3262064654182419 / 68719476736) (822241035294227 / 2251799813685248) = 1191137596757333 / 68719476736"
    by (simp add: dmul_def round64_eval[where n = 38] rne_def)
  have s25: "dsub (- 20000) (1191137596757333 / 68719476736) = - (2565527131477333 / 68719476736)"
    by (simp add: dsub_def round64_eval[where n = 37] rne_def)
  have s26: "dmul (3262064654182419 / 68719476736) (2466723105882681 / 4503599627370496) = 7146825580543999 / 274877906944"
    by (simp add: dmul_def round64_eval[where n = 38] rne_def)
  have s27: "dsub 30000 (7146825580543999 / 274877906944) = 1099511627776001 / 274877906944"
    by (simp add: dsub_def round64_eval[where n = 41] rne_def)
  have s28: "dmul (3262064654182419 / 68719476736) (822241035294227 / 1125899906842624) = 1191137596757333 / 34359738368"
    by (simp add: dmul_def round64_eval[where n = 37] rne_def)
  have s29: "dsub 50000 (1191137596757333 / 34359738368) = 526849321642667 / 34359738368"
    by (simp add: dsub_def round64_eval[where n = 39] rne_def)
  have q: "\<not> useEuler exQuatBall" by (simp add: exQuatBall_def newContainedBallJoint_def)
  have r: "enforceBallConstraints64 exQuatBall 0 [1, 2, 3, 4] [10000, - 20000, 30000, 50000] =
     (exQuatBall\<lparr>ball_q := ?Q, ball_dq := ?D\<rparr>, ?Q, ?D)"
    using q
    by (simp add: enforceBallConstraints64_def norm64_def dot64_def subVec_def subVecSet_def Let_def
        s1 s2 s3 s4 s5 s6 s7 s8 s9 s10 s11 s12 s13 s14 s15 s16 s17 s18 s19 s20 s21 s22 s23 s24 s25 s26 s27 s28 s29)
  have d: "dot ?Q ?D = 13978097600001859 / 2 ^ 90"
    by (simp add: dot_def)
  have t: "\<not> \<bar>dot ?Q ?D\<bar> \<le> 1 / 10 ^ 12"
    unfolding d by simp
  have s30: "dmul (822241035294227 / 4503599627370496) (183251937962667 / 137438953472) = 16728536688115 / 68719476736"
    by (simp add: dmul_def round64_eval[where n = 45] rne_def)
  have s31: "dadd 0 (16728536688115 / 68719476736) = 16728536688115 / 68719476736"
    by (simp add: dadd_def round64_eval[where n = 45] rne_def)
  have s32: "dmul (822241035294227 / 2251799813685248) (- (2565527131477333 / 68719476736)) = - (3747192218137753 / 274877906944)"
    by (simp add: dmul_def round64_eval[where n = 39] rne_def)
  have s33: "dadd (16728536688115 / 68719476736) (- (3747192218137753 / 274877906944)) = - (3680278071385293 / 274877906944)"
    by (simp add: dadd_def round64_eval[where n = 39] rne_def)
  have s34: "dmul (2466723105882681 / 4503599627370496) (1099511627776001 / 274877906944) = 1204454641544279 / 549755813888"
    by (simp add: dmul_def round64_eval[where n = 41] rne_def)
  have s35: "dadd (- (3680278071385293 / 274877906944)) (1204454641544279 / 549755813888) = - (6156101501226307 / 549755813888)"
    by (simp add: dadd_def round64_eval[where n = 39] rne_def)
  have s36: "dmul (822241035294227 / 1125899906842624) (526849321642667 / 34359738368) = 6156101501226313 / 549755813888"
    by (simp add: dmul_def round64_eval[where n = 39] rne_def)
  have s37: "dadd (- (6156101501226307 / 549755813888)) (6156101501226313 / 549755813888) = 3 / 274877906944"
    by (simp add: dadd_def round64_eval[where n = 89] rne_def)
  have d64: "dot64 ?Q ?D = 3 / 2 ^ 38"
    by (simp add: dot64_def s30 s31 s32 s33 s34 s35 s36 s37)
  have t64: "\<not> \<bar>dot64 ?Q ?D\<bar> \<le> 1 / 10 ^ 12"
    unfolding d64 by simp
  show ?thesis unfolding r prod.case using i d t d64 t64 by simp
qed

lemma ballM_explicit:
  "mmul (ballM34 [a, b, c, d]) (transpose (ballM34 [a, b, c, d])) =
   msmul (dot [a, b, c, d] [a, b, c, d]) ident33"
  by (simp add: mmul_def ballM34_def msmul_def ident33_def dot_def smul_def)

lemma roundtrip_explicit:
  "smul 2 (mv (ballM34 [a, b, c, d]) (mv (msmul (1 / 2) (ballM43 [a, b, c, d])) [x, y, z])) =
   smul (dot [a, b, c, d] [a, b, c, d]) [x, y, z]"
  by (simp add: ballM34_def ballM43_def mv_def msmul_def smul_def dot_def algebra_simps)

text \<open>
  C6.  For a ball in quaternion mode with a quaternion of four components, the 3x4
  matrix \<open>M(q)\<close> of \<^verbatim>\<open>setBallVel\<close> satisfies \<open>M(q) \<cdot> M(q)\<^sup>T = |q|\<^sup>2 \<cdot> I\<close> and its transpose is the
  4x3 matrix of \<^verbatim>\<open>setBallDerivs\<close>; \<^verbatim>\<open>setBallDerivs(\<omega>)\<close> stores \<open>dq = \<onehalf> \<cdot> M(q)\<^sup>T \<cdot> \<omega>\<close>, and
  \<^verbatim>\<open>setBallVel\<close>, reading that \<open>dq\<close> back from the velocity vector into which
  \<^verbatim>\<open>getBallVel\<close> wrote it, returns \<open>2 \<cdot> M(q) \<cdot> dq = |q|\<^sup>2 \<cdot> \<omega>\<close>, which is \<open>\<omega>\<close> when \<open>|q| = 1\<close>.
\<close>

theorem ball_velocity_roundtrip:
  assumes "\<not> useEuler bj" and "length (ball_q bj) = 4" and "length omega = 3"
    and "off + 4 \<le> length velv"
  shows "mmul (ballM34 (ball_q bj)) (transpose (ballM34 (ball_q bj))) =
           msmul ((vnorm (ball_q bj))\<^sup>2) ident33 \<and>
         transpose (ballM34 (ball_q bj)) = ballM43 (ball_q bj) \<and>
         (case setBallDerivs bj omega of
            Inl e \<Rightarrow> False
          | Inr bj1 \<Rightarrow>
              ball_dq bj1 = smul (1 / 2) (mv (transpose (ballM34 (ball_q bj))) omega) \<and>
              snd (setBallVel bj1 off (getBallVel bj1 dTheta0 off velv) dTheta1) =
                smul ((vnorm (ball_q bj))\<^sup>2) omega \<and>
              (vnorm (ball_q bj) = 1 \<longrightarrow>
                 snd (setBallVel bj1 off (getBallVel bj1 dTheta0 off velv) dTheta1) =
                   omega))"
proof -
  obtain a b c d where q: "ball_q bj = [a, b, c, d]" using len4[OF assms(2)] by blast
  obtain x y z where w: "omega = [x, y, z]" using len3[OF assms(3)] by blast
  have m: "mmul (ballM34 (ball_q bj)) (transpose (ballM34 (ball_q bj))) =
           msmul ((vnorm (ball_q bj))\<^sup>2) ident33"
    unfolding vnorm_sq q by (rule ballM_explicit)
  have tr: "transpose (ballM34 (ball_q bj)) = ballM43 (ball_q bj)"
    by (simp add: ballM34_def ballM43_def)
  let ?dq = "mv (msmul (1 / 2) (ballM43 (ball_q bj))) omega"
  have ldq: "length ?dq = 4" by (simp add: mv_def msmul_def ballM43_def)
  have half: "?dq = smul (1 / 2) (mv (transpose (ballM34 (ball_q bj))) omega)"
    unfolding q w
    by (simp add: ballM34_def ballM43_def mv_def msmul_def smul_def dot_def algebra_simps)
  have rd: "subVec (subVecSet velv off 4 ?dq) off 4 = ?dq"
    using assms(4) ldq by (rule subVec_subVecSet)
  have rt: "smul 2 (mv (ballM34 (ball_q bj)) ?dq) = smul ((vnorm (ball_q bj))\<^sup>2) omega"
    unfolding vnorm_sq q w by (rule roundtrip_explicit)
  have one: "vnorm (ball_q bj) = 1 \<longrightarrow> smul ((vnorm (ball_q bj))\<^sup>2) omega = omega"
    by (simp add: smul_def map_idI)
  let ?b1 = "bj\<lparr>ball_dq := ?dq\<rparr>"
  let ?roundtrip = "snd (setBallVel ?b1 off (getBallVel ?b1 dTheta0 off velv) dTheta1)"
  have sd: "setBallDerivs bj omega = Inr ?b1"
    using assms(1) by (simp add: setBallDerivs_def Let_def)
  have d: "ball_dq ?b1 = smul (1 / 2) (mv (transpose (ballM34 (ball_q bj))) omega)"
    using half by simp
  have "?roundtrip = smul 2 (mv (ballM34 (ball_q bj)) ?dq)"
    using assms(1) by (simp add: setBallVel_def getBallVel_def Let_def rd)
  hence r1: "?roundtrip = smul ((vnorm (ball_q bj))\<^sup>2) omega" using rt by (rule trans)
  have r2: "vnorm (ball_q bj) = 1 \<longrightarrow> ?roundtrip = omega"
  proof
    assume "vnorm (ball_q bj) = 1"
    with one have "smul ((vnorm (ball_q bj))\<^sup>2) omega = omega" by blast
    with r1 show "?roundtrip = omega" by (rule trans)
  qed
  show ?thesis unfolding sd sum.case using m tr d r1 r2 by blast
qed

theorem ball_velocity_roundtrip_witness:
  "\<not> useEuler exQuatBall \<and> length (ball_q exQuatBall) = 4 \<and> length [1, 2, 3 :: real] = 3 \<and>
   0 + 4 \<le> length [0, 0, 0, 0, 0 :: real] \<and> vnorm (ball_q exQuatBall) = 1 \<and>
   (case setBallDerivs exQuatBall [1, 2, 3] of
      Inl e \<Rightarrow> False
    | Inr bj1 \<Rightarrow>
        ball_dq bj1 = [0, 1 / 2, 1, 3 / 2] \<and>
        snd (setBallVel bj1 0 (getBallVel bj1 [] 0 [0, 0, 0, 0, 0]) []) = [1, 2, 3])"
proof -
  have h1: "\<not> useEuler exQuatBall" by (simp add: exQuatBall_def newContainedBallJoint_def)
  have q: "ball_q exQuatBall = [1, 0, 0, 0]" by (simp add: exQuatBall_def newContainedBallJoint_def)
  have h2: "length (ball_q exQuatBall) = 4" by (simp add: q)
  have h3: "length [1, 2, 3 :: real] = 3" by simp
  have h4: "0 + 4 \<le> length [0, 0, 0, 0, 0 :: real]" by simp
  have n: "vnorm (ball_q exQuatBall) = 1" by (simp add: q vnorm_def dot_def)
  have v: "smul (1 / 2) (mv (transpose (ballM34 (ball_q exQuatBall))) [1, 2, 3]) = [0, 1 / 2, 1, 3 / 2]"
    by (simp add: q ballM34_def mv_def dot_def smul_def)
  show ?thesis
    using ball_velocity_roundtrip[of exQuatBall "[1, 2, 3]" 0 "[0, 0, 0, 0, 0]" "[]" "[]",
        OF h1 h2 h3 h4] h1 h2 h3 h4 n v
    by (auto split: sum.splits)
qed


section \<open>The Euler angles of a ball joint\<close>

text \<open>
  C7.  In Euler mode \<^verbatim>\<open>calcR_PB\<close> multiplies each angle by \<^verbatim>\<open>DEG2RAD\<close>, so the angles are
  degrees: \<open>\<theta> = (0, 0, 0)\<close> gives the identity, and \<open>\<theta> = (90, 0, 0)\<close> gives the quarter turn
  about \<open>z\<close>, which maps \<open>e\<^sub>x\<close> to \<open>e\<^sub>y\<close> and \<open>e\<^sub>y\<close> to \<open>- e\<^sub>x\<close>; its transpose maps \<open>e\<^sub>y\<close> to
  \<open>e\<^sub>x\<close>.
\<close>

theorem euler_calcR_PB_degrees:
  "snd (ball_calcR_PB (bj\<lparr>useEuler := True\<rparr>) [0, 0, 0]) = ident33 \<and>
   snd (ball_calcR_PB (bj\<lparr>useEuler := True\<rparr>) [90, 0, 0]) = [[0, - 1, 0], [1, 0, 0], [0, 0, 1]] \<and>
   mv (snd (ball_calcR_PB (bj\<lparr>useEuler := True\<rparr>) [90, 0, 0])) [1, 0, 0] = [0, 1, 0] \<and>
   mv (snd (ball_calcR_PB (bj\<lparr>useEuler := True\<rparr>) [90, 0, 0])) [0, 1, 0] = [- 1, 0, 0] \<and>
   mv (transpose (snd (ball_calcR_PB (bj\<lparr>useEuler := True\<rparr>) [90, 0, 0]))) [0, 1, 0] = [1, 0, 0]"
  by (simp add: ball_calcR_PB_def Let_def DEG2RAD_def ident33_def mv_def dot_def)


text \<open>
  With \<open>\<theta> = (\<pi>/2, 0, 0)\<close> the angle of the rotation is \<open>\<pi>/2 \<cdot> \<pi>/180\<close> radians, less than
  two degrees: neither the matrix nor its transpose maps \<open>e\<^sub>y\<close> to \<open>e\<^sub>x\<close>.
\<close>

theorem euler_calcR_PB_half_pi_counterexample:
  "mv (snd (ball_calcR_PB (fst (newContainedBallJoint 0 True)) [pi / 2, 0, 0])) [0, 1, 0] \<noteq> [1, 0, 0] \<and>
   mv (transpose (snd (ball_calcR_PB (fst (newContainedBallJoint 0 True)) [pi / 2, 0, 0]))) [0, 1, 0]
     \<noteq> [1, 0, 0]"
proof -
  have "0 < pi / 2 * DEG2RAD" by (simp add: DEG2RAD_def)
  moreover have "pi / 2 * DEG2RAD < pi / 2" using pi_less_4 by (simp add: DEG2RAD_def)
  moreover have "- (pi / 2) < 0" by simp
  ultimately have "0 < cos (pi / 2 * DEG2RAD)" by (intro cos_gt_zero_pi) linarith+
  thus ?thesis
    by (simp add: ball_calcR_PB_def newContainedBallJoint_def Let_def mv_def dot_def)
qed



section \<open>The node factory\<close>

text \<open>
  C8.  \<^verbatim>\<open>RigidBodyNode::create\<close> fails an assertion when \<^verbatim>\<open>isReversed\<close> is set or the joint
  type has no joint family; otherwise it returns a node of the family of the joint type
  and advances the state offset by the degrees of freedom of the family, and by one more
  for a ball in quaternion mode.
\<close>

theorem create_precondition:
  "(isReversed \<or> jointFamily ty = None \<longrightarrow>
      create base m0 f0 m jointFrame ty isReversed shouldUseEuler nxt = Inl AssertionFailed) \<and>
   (\<not> isReversed \<and> jointFamily ty = Some c \<longrightarrow>
      (case create base m0 f0 m jointFrame ty isReversed shouldUseEuler nxt of
         Inl e \<Rightarrow> False
       | Inr (n, nxt1) \<Rightarrow>
           nodeClass n = c \<and>
           nxt1 = nxt + getDOF c +
             (if (c = RBNodeRotate3 \<or> c = RBNodeTranslateRotate3) \<and> \<not> shouldUseEuler
              then 1 else 0)))"
  by (cases ty)
     (auto simp: create_def jointFamily_def newRBGroundBody_def newRigidBodyNodeSpec_def
        newBallNode_def newContainedBallJoint_def getDOF_def Let_def split: prod.splits)

theorem create_precondition_witness:
  "create exampleBase exMass exFrame exMass exFrame TorsionJoint True False 0 = Inl AssertionFailed \<and>
   jointFamily WeldJoint = None \<and>
   create exampleBase exMass exFrame exMass exFrame WeldJoint False False 0 = Inl AssertionFailed \<and>
   jointFamily FreeJoint = Some RBNodeTranslateRotate3 \<and>
   (case create exampleBase exMass exFrame exMass exFrame FreeJoint False False 4 of
      Inl e \<Rightarrow> False
    | Inr (n, nxt1) \<Rightarrow> nodeClass n = RBNodeTranslateRotate3 \<and> nxt1 = 11)"
proof -
  have j1: "jointFamily WeldJoint = None" by (simp add: jointFamily_def)
  have j2: "jointFamily FreeJoint = Some RBNodeTranslateRotate3" by (simp add: jointFamily_def)
  have a: "create exampleBase exMass exFrame exMass exFrame TorsionJoint True False 0 =
      Inl AssertionFailed"
    using create_precondition[of True TorsionJoint exampleBase exMass exFrame exMass exFrame
        False 0 RBNodeTorsion] by simp
  have b: "create exampleBase exMass exFrame exMass exFrame WeldJoint False False 0 =
      Inl AssertionFailed"
    using create_precondition[of False WeldJoint exampleBase exMass exFrame exMass exFrame
        False 0 RBNodeTorsion] j1 by simp
  have c: "(case create exampleBase exMass exFrame exMass exFrame FreeJoint False False 4 of
      Inl e \<Rightarrow> False
    | Inr (n, nxt1) \<Rightarrow> nodeClass n = RBNodeTranslateRotate3 \<and> nxt1 = 11)"
    using create_precondition[of False FreeJoint exampleBase exMass exFrame exMass exFrame
        False 4 RBNodeTranslateRotate3] j2
    by (auto simp: getDOF_def split: sum.splits prod.splits)
  show ?thesis using j1 j2 a b c by blast
qed

section \<open>\<^verbatim>\<open>setPos\<close> and the internal force\<close>

lemma setJointPos_forceInternal:
  "forceInternal (setJointPos n posv) = forceInternal n"
  "nodeClass (setJointPos n posv) = nodeClass n"
  "parent (setJointPos n posv) = parent n"
  by (cases "nodeClass n"; simp add: setJointPos_def Let_def split: prod.splits)+

lemma calcJointKinematicsPos_forceInternal:
  "forceInternal (calcJointKinematicsPos pn n) = forceInternal n"
  "nodeClass (calcJointKinematicsPos pn n) = nodeClass n"
  "parent (calcJointKinematicsPos pn n) = parent n"
  by (cases "nodeClass n"; simp add: calcJointKinematicsPos_def torsion_calcH_def
      torsion_calcR_PB_def rotate2_calcH_def rotate2_calcR_PB_def translateRotate2_calcH_def
      Let_def split: prod.splits)+

lemma calcJointIndependentKinematicsPos_forceInternal:
  "forceInternal (calcJointIndependentKinematicsPos pn n) = forceInternal n"
  "nodeClass (calcJointIndependentKinematicsPos pn n) = nodeClass n"
  by (simp_all add: calcJointIndependentKinematicsPos_def Let_def)

lemma calcJointKinematicsPos_parent_forceInternal:
  "calcJointKinematicsPos (pn\<lparr>forceInternal := v\<rparr>) n = calcJointKinematicsPos pn n"
  by (cases "nodeClass n"; simp add: calcJointKinematicsPos_def torsion_calcH_def
      rotate2_calcH_def translateRotate2_calcH_def Let_def)

lemma calcJointIndependentKinematicsPos_parent_forceInternal:
  "calcJointIndependentKinematicsPos (pn\<lparr>forceInternal := v\<rparr>) n =
   calcJointIndependentKinematicsPos pn n"
  by (simp add: calcJointIndependentKinematicsPos_def Let_def)

lemma setPos_unfold:
  assumes "nodeClass (t k) \<noteq> RBGroundBody"
  shows "setPos t k posv =
    (let n1 = (t k)\<lparr>forceInternal := zeroVec (getDOF (nodeClass (t k)))\<rparr>;
         n2 = setJointPos n1 posv;
         n3 = calcJointKinematicsPos (t (parent n2)) n2;
         n4 = calcJointIndependentKinematicsPos (t (parent n3)) n3
     in t(k := n4))"
  using assms by (cases "nodeClass (t k)") (simp_all add: setPos_def)

lemma setPos_forgets:
  assumes "nodeClass (t k) \<noteq> RBGroundBody"
  shows "setPos (t(k := (t k)\<lparr>forceInternal := v\<rparr>)) k posv = setPos t k posv"
proof -
  let ?t' = "t(k := (t k)\<lparr>forceInternal := v\<rparr>)"
  have c: "nodeClass (?t' k) \<noteq> RBGroundBody" using assms by simp
  show ?thesis
    unfolding setPos_unfold[of ?t' k, OF c] setPos_unfold[of t k, OF assms]
    by (simp add: Let_def calcJointKinematicsPos_parent_forceInternal
        calcJointIndependentKinematicsPos_parent_forceInternal)
qed

lemma exTree_setPos:
  "nodeClass (setPos exTree (Suc 0) [0] (Suc 0)) = RBNodeTorsion"
  "children (setPos exTree (Suc 0) [0] (Suc 0)) = [2]"
  "Hk (setPos exTree (Suc 0) [0] (Suc 0)) = [[0, 0, 1, 0, 0, 0]]"
  "setPos exTree (Suc 0) [0] 2 = exBody2"
  by (simp_all add: setPos_def exTree_nodes exBody1_fields exBody1_frame exGround_fields Let_def
      setJointPos_def calcJointKinematicsPos_def calcJointIndependentKinematicsPos_def
      torsion_calcH_def torsion_calcR_PB_def getDOF_def subVec_def blockMat12_def mv_def dot_def
      ident33_def)

text \<open>
  C10.  On a node that is not the ground, \<^verbatim>\<open>setPos\<close> leaves \<^verbatim>\<open>forceInternal\<close> zero, and
  the tree it returns does not depend on the \<^verbatim>\<open>forceInternal\<close> that the node had;
  \<^verbatim>\<open>calcInternalForce(f)\<close>, for a 6-vector \<open>f\<close>, sets \<open>z = - f + \<Sum>\<^sub>c \<Phi>\<^sub>c \<cdot> z\<^sub>c\<close> and adds \<open>H \<cdot> z\<close> to
  \<^verbatim>\<open>forceInternal\<close>; so after \<^verbatim>\<open>setPos\<close> and one \<^verbatim>\<open>calcInternalForce(f)\<close> the internal
  force is \<open>0 + H \<cdot> z\<close>, whatever it was before.
\<close>

theorem setPos_resets_forceInternal:
  assumes "nodeClass (t k) \<noteq> RBGroundBody" and "length f = 6"
  shows "forceInternal (setPos t k posv k) = zeroVec (getDOF (nodeClass (t k))) \<and>
         setPos (t(k := (t k)\<lparr>forceInternal := v\<rparr>)) k posv = setPos t k posv \<and>
         zk (calcInternalForce t k f k) = calcInternalForce_spec t k f \<and>
         forceInternal (calcInternalForce t k f k) =
           vadd (forceInternal (t k)) (mv (Hk (t k)) (zk (calcInternalForce t k f k))) \<and>
         forceInternal (calcInternalForce (setPos t k posv) k f k) =
           vadd (zeroVec (getDOF (nodeClass (t k))))
                (mv (Hk (setPos t k posv k)) (zk (calcInternalForce (setPos t k posv) k f k)))"
proof -
  have fi: "forceInternal (setPos t k posv k) = zeroVec (getDOF (nodeClass (t k)))"
    unfolding setPos_unfold[of t k, OF assms(1)]
    by (simp add: Let_def calcJointIndependentKinematicsPos_forceInternal
        calcJointKinematicsPos_forceInternal setJointPos_forceInternal)
  have nc: "nodeClass (setPos t k posv k) = nodeClass (t k)"
    unfolding setPos_unfold[of t k, OF assms(1)]
    by (simp add: Let_def calcJointIndependentKinematicsPos_forceInternal
        calcJointKinematicsPos_forceInternal setJointPos_forceInternal)
  have acc: "\<And>s. nodeClass (s k) \<noteq> RBGroundBody \<Longrightarrow>
      zk (calcInternalForce s k f k) = calcInternalForce_spec s k f \<and>
      forceInternal (calcInternalForce s k f k) =
        vadd (forceInternal (s k)) (mv (Hk (s k)) (zk (calcInternalForce s k f k)))"
  proof -
    fix s :: Tree
    assume g: "nodeClass (s k) \<noteq> RBGroundBody"
    have "length (vneg f) = 6" using assms(2) by (simp add: vneg_def)
    hence z: "fold (\<lambda>c z. vadd z (phiMul (phi (s c)) (zk (s c)))) (children (s k)) (vneg f) =
              calcInternalForce_spec s k f"
      unfolding calcInternalForce_spec_def by (intro fold_vadd) (simp_all add: length_phiMul)
    show "zk (calcInternalForce s k f k) = calcInternalForce_spec s k f \<and>
      forceInternal (calcInternalForce s k f k) =
        vadd (forceInternal (s k)) (mv (Hk (s k)) (zk (calcInternalForce s k f k)))"
      using g z by (cases "nodeClass (s k)") (simp_all add: calcInternalForce_def Let_def)
  qed
  have a1: "zk (calcInternalForce t k f k) = calcInternalForce_spec t k f \<and>
      forceInternal (calcInternalForce t k f k) =
        vadd (forceInternal (t k)) (mv (Hk (t k)) (zk (calcInternalForce t k f k)))"
    using assms(1) by (rule acc)
  have "nodeClass (setPos t k posv k) \<noteq> RBGroundBody" using nc assms(1) by simp
  hence a2: "forceInternal (calcInternalForce (setPos t k posv) k f k) =
        vadd (forceInternal (setPos t k posv k))
             (mv (Hk (setPos t k posv k)) (zk (calcInternalForce (setPos t k posv) k f k)))"
    using acc[of "setPos t k posv"] by blast
  show ?thesis using fi setPos_forgets[of t k v posv, OF assms(1)] a1 a2 by simp
qed


theorem setPos_resets_forceInternal_witness:
  "nodeClass (exTree 1) \<noteq> RBGroundBody \<and> length [0, 0, 0, 0, 0, 1 :: real] = 6 \<and>
   forceInternal (exTree 1) = [5] \<and>
   forceInternal (setPos exTree 1 [0] 1) = [0] \<and>
   setPos (exTree(1 := (exTree 1)\<lparr>forceInternal := [7]\<rparr>)) 1 [0] = setPos exTree 1 [0] \<and>
   forceInternal (calcInternalForce exTree 1 [0, 0, 0, 0, 0, 1] 1) = [6] \<and>
   forceInternal (calcInternalForce (setPos exTree 1 [0]) 1 [0, 0, 0, 0, 0, 1] 1) = [1]"
proof -
  have h1: "nodeClass (exTree 1) \<noteq> RBGroundBody" by (simp add: exTree_nodes exBody1_fields)
  have h2: "length [0, 0, 0, 0, 0, 1 :: real] = 6" by simp
  have h3: "nodeClass (setPos exTree 1 [0] 1) \<noteq> RBGroundBody" by (simp add: exTree_setPos)
  note c = setPos_resets_forceInternal[of exTree 1 "[0, 0, 0, 0, 0, 1]" "[0]" "[7]", OF h1 h2]
  note c' = setPos_resets_forceInternal[of "setPos exTree 1 [0]" 1 "[0, 0, 0, 0, 0, 1]" "[0]" "[7]",
      OF h3 h2]
  have f0: "forceInternal (exTree 1) = [5]" by (simp add: exTree_nodes exBody1_fields)
  have f1: "forceInternal (setPos exTree 1 [0] 1) = [0]"
    using c by (simp add: exTree_nodes exBody1_fields getDOF_def zeroVec_def)
  have fg: "setPos (exTree(1 := (exTree 1)\<lparr>forceInternal := [7]\<rparr>)) 1 [0] = setPos exTree 1 [0]"
    using c by blast
  have z: "calcInternalForce_spec exTree 1 [0, 0, 0, 0, 0, 1] = [0, 0, 1, 0, 1, - 1]"
    by (simp add: calcInternalForce_spec_def exTree_nodes exBody1_fields exBody2_fields vsum_def
        zeroVec_eval vneg_def vadd_def phiMul_def phiMat_def blockMat22_def blockMat21_def
        blockMat12_def crossMat_def ident33_def zero33_def mv_def dot_def)
  have f2: "forceInternal (calcInternalForce exTree 1 [0, 0, 0, 0, 0, 1] 1) = [6]"
    using c z by (simp add: exTree_nodes exBody1_fields mv_def dot_def vadd_def)
  have z': "calcInternalForce_spec (setPos exTree 1 [0]) 1 [0, 0, 0, 0, 0, 1] = [0, 0, 1, 0, 1, - 1]"
    by (simp add: calcInternalForce_spec_def exTree_setPos exBody2_fields vsum_def
        zeroVec_eval vneg_def vadd_def phiMul_def phiMat_def blockMat22_def blockMat21_def
        blockMat12_def crossMat_def ident33_def zero33_def mv_def dot_def)
  have f3: "forceInternal (calcInternalForce (setPos exTree 1 [0]) 1 [0, 0, 0, 0, 0, 1] 1) = [1]"
    using c c' z'
    by (simp add: exTree_nodes exBody1_fields exTree_setPos getDOF_def zeroVec_def mv_def dot_def
        vadd_def)
  show ?thesis using h1 h2 f0 f1 fg f2 f3 by blast
qed


section \<open>The LAPACK wrappers\<close>

text \<open>
  C9.  With \<^verbatim>\<open>jobz = 'A'\<close> and a 2x2 matrix the complex wrappers allocate a real workspace
  of 10 elements, where comparing \<^verbatim>\<open>jobz\<close> with \<^verbatim>\<open>'N'\<close> asks for 34, and both calls of
  the LAPACK routine receive \<^verbatim>\<open>'N'\<close> instead of the caller's \<^verbatim>\<open>'A'\<close>.
\<close>

theorem gesdd_complex_jobz_A:
  "rwork_size (gesdd_complex k query (CHR ''A'') 2 2) = 10 \<and>
   gesdd_rwork_spec (CHR ''A'') 2 2 = 34 \<and>
   map arg_jobz (calls (gesdd_complex k query (CHR ''A'') 2 2)) = [CHR ''N'', CHR ''N'']"
  by (simp add: gesdd_complex_def gesdd_rwork_spec_def Let_def)

end
